theory Spec2Isabelle
  imports Complex_Main "HOL-Library.Log_Nat"
begin

section \<open>Values, exceptions, messages and events\<close>

subsection \<open>Floating-point numbers\<close>

text \<open>
  A Python float is an IEEE binary64 number. A finite double denotes a rational, and the
  model keeps a float as that rational; every arithmetic operation rounds its exact result
  to the nearest double, ties to the even significand. Overflow and subnormal numbers are
  outside the model: the floats of this program are token ratios and short sums of them.
\<close>

type_synonym pyfloat = rat

definition round_half_even :: "rat \<Rightarrow> int" where
  "round_half_even x =
     (let f = \<lfloor>x\<rfloor>; d = x - of_int f
      in if d < 1/2 then f else if 1/2 < d then f + 1 else if even f then f else f + 1)"

definition pow2 :: "int \<Rightarrow> rat" where
  "pow2 e = (if 0 \<le> e then 2 ^ nat e else 1 / 2 ^ nat (- e))"

text \<open>For a positive \<open>x\<close>, the exponent \<open>e\<close> with \<open>2 ^ e \<le> x < 2 ^ (e + 1)\<close>.\<close>

definition binade :: "rat \<Rightarrow> int" where
  "binade x =
     (if 1 \<le> x then bitlen \<lfloor>x\<rfloor> - 1
      else (let j = bitlen \<lfloor>1 / x\<rfloor> in if x = pow2 (1 - j) then 1 - j else - j))"

text \<open>The double nearest to a rational: a significand of 53 bits, rounded half to even.\<close>

definition double :: "rat \<Rightarrow> pyfloat" where
  "double x =
     (if x = 0 then 0
      else (let e = binade \<bar>x\<bar> - 52
            in sgn x * of_int (round_half_even (\<bar>x\<bar> / pow2 e)) * pow2 e))"

text \<open>
  Float addition and true division (also of two integers, whose quotient Python rounds
  once), and the builtin \<open>sum\<close>, which starts from \<open>0\<close> and adds the items from left to
  right. Comparison of floats is comparison of the rationals they denote.
\<close>

definition float_add :: "pyfloat \<Rightarrow> pyfloat \<Rightarrow> pyfloat" where
  "float_add a b = double (a + b)"

definition float_div :: "rat \<Rightarrow> rat \<Rightarrow> pyfloat" where
  "float_div a b = double (a / b)"

definition float_sum :: "pyfloat list \<Rightarrow> pyfloat" where
  "float_sum xs = foldl float_add 0 xs"

subsection \<open>Values and exceptions\<close>

text \<open>
  Python values that travel through payloads untouched (the \<open>text\<close> of a turn, and
  whatever \<open>json.loads\<close> returns).
\<close>

datatype pyval =
    PNone
  | PBool bool
  | PInt int
  | PFloat pyfloat
  | PStr string
  | PList "pyval list"
  | PDict "(string \<times> pyval) list"

text \<open>The exceptions the two actors can meet, with the text that \<open>str(e)\<close> yields.\<close>

datatype exn =
    KeyError string
  | ValueError string
  | JSONDecodeError string
  | ZeroDivisionError string
  | IndexError string
  | TypeError string
  | BackendError string

fun str_exn :: "exn \<Rightarrow> string" where
  "str_exn (KeyError k) = [CHR 0x27] @ k @ [CHR 0x27]"
| "str_exn (ValueError m) = m"
| "str_exn (JSONDecodeError m) = m"
| "str_exn (ZeroDivisionError m) = m"
| "str_exn (IndexError m) = m"
| "str_exn (TypeError m) = m"
| "str_exn (BackendError m) = m"

text \<open>\<open>class MessageType(str, Enum)\<close> of \<open>actors/messages.py\<close>.\<close>

datatype MessageType =
    PING | PONG | ERROR | SHUTDOWN | DLQ_QUEUED | DLQ_PROCESSED | DLQ_CLEANUP
  | USER_MESSAGE | GENERATE_RESPONSE | BOT_RESPONSE | STREAMING_CHUNK
  | SESSION_CREATED | SESSION_UPDATED | CACHE_HIT_METRIC | PROMPT_INCLUSION
  | JSON_MODE_FAILURE | TELEGRAM_MESSAGE_RECEIVED | PROCESS_USER_MESSAGE
  | SEND_TELEGRAM_RESPONSE

text \<open>
  The payload dictionary, restricted to the keys the two actors read or write. A key that
  is absent from the dictionary is \<open>None\<close>; each present key has the type the code
  gives it (\<open>user_id: str\<close>, an integer chat id, a text of any Python type).
\<close>

record payload =
  p_user_id :: "string option"
  p_username :: "string option"
  p_text :: "pyval option"
  p_chat_id :: "int option"
  p_include_prompt :: "bool option"
  p_message_count :: "int option"
  p_session_data :: "(string option \<times> string) option"
  p_cache_hit_rate :: "pyfloat option"
  p_generated_at :: "string option"
  p_error :: "string option"
  p_error_type :: "string option"

definition empty_payload :: payload where
  "empty_payload = \<lparr> p_user_id = None, p_username = None, p_text = None, p_chat_id = None,
     p_include_prompt = None, p_message_count = None, p_session_data = None,
     p_cache_hit_rate = None, p_generated_at = None, p_error = None, p_error_type = None \<rparr>"

text \<open>
  \<open>ActorMessage\<close>. The random \<open>message_id\<close> is left out; the timestamp is the reading
  of the actor's clock when the message is built.
\<close>

record ActorMessage =
  sender_id :: "string option"
  message_type :: MessageType
  payload :: payload
  timestamp :: string

text \<open>The reason of a prompt inclusion, before it is rendered into the reason string.\<close>

datatype prompt_reason =
    always_strategy
  | periodic_interval int
  | low_cache_hit_rate pyfloat
  | adaptive_periodic
  | unknown

text \<open>The \<open>data\<close> dictionaries of the four event types, one constructor per shape.\<close>

datatype event_data =
    SessionCreatedData string "string option" string
  | PromptInclusionData string int string prompt_reason
  | CacheHitMetricData int int pyfloat string
  | JSONModeFailureData string string string

text \<open>\<open>BaseEvent\<close>, built by \<open>BaseEvent.create\<close> (the random \<open>event_id\<close> is left out).\<close>

record BaseEvent =
  stream_id :: string
  event_type :: string
  event_timestamp :: string
  data :: event_data
  version :: int
  correlation_id :: "string option"

definition BaseEvent_create :: "string \<Rightarrow> string \<Rightarrow> event_data \<Rightarrow> string \<Rightarrow> BaseEvent" where
  "BaseEvent_create sid ty d now =
     \<lparr> stream_id = sid, event_type = ty, event_timestamp = now, data = d,
       version = 0, correlation_id = None \<rparr>"

definition ActorMessage_create :: "string option \<Rightarrow> MessageType \<Rightarrow> payload \<Rightarrow> string \<Rightarrow> ActorMessage" where
  "ActorMessage_create sender ty p now =
     \<lparr> sender_id = sender, message_type = ty, payload = p, timestamp = now \<rparr>"

section \<open>Configuration and the actor base\<close>

text \<open>
  \<open>PROMPT_CONFIG\<close>, \<open>PROMPTS["base"]\<close> and \<open>CACHE_HIT_LOG_INTERVAL\<close> live in
  \<open>config/\<close>; their values are parameters of the model.
\<close>

record config =
  prompt_strategy :: string
  enable_periodic_prompt :: bool
  system_prompt_interval :: int
  cache_hit_threshold :: pyfloat
  use_json_mode :: bool
  json_fallback_enabled :: bool
  prompt_normal :: string
  prompt_json :: string
  CACHE_HIT_LOG_INTERVAL :: int

text \<open>
  What both actors inherit from \<open>BaseActor\<close>: their id, whether an actor system is
  attached (\<open>get_actor_system()\<close> is truthy), the messages handed to
  \<open>send_message\<close> with their target, the events handed to the event store, and the
  wall clock that \<open>datetime.now()\<close> reads.
\<close>

record BaseActor =
  actor_id :: string
  actor_system :: bool
  sent :: "(string \<times> ActorMessage) list"
  event_log :: "BaseEvent list"
  clock :: string

text \<open>
  Modelled from the spec: \<open>EventVersionManager.append_event\<close> (\<open>utils/event_utils.py\<close>)
  is not among the sources. The spec calls it a thin sequencing wrapper that appends
  events to the log through the external event store; the model appends the event to the
  actor's log.
\<close>

definition append_event :: "BaseEvent \<Rightarrow> 'a BaseActor_scheme \<Rightarrow> 'a BaseActor_scheme" where
  "append_event e a = a\<lparr> event_log := event_log a @ [e] \<rparr>"

text \<open>\<open>if self.get_actor_system(): await self.get_actor_system().send_message(target, msg)\<close>\<close>

definition send_message :: "string \<Rightarrow> ActorMessage \<Rightarrow> 'a BaseActor_scheme \<Rightarrow> 'a BaseActor_scheme" where
  "send_message target m a = (if actor_system a then a\<lparr> sent := sent a @ [(target, m)] \<rparr> else a)"

section \<open>The session actor\<close>

record UserSession =
  user_id :: string
  username :: "string option"
  message_count :: int
  created_at :: string
  last_activity :: string
  cache_metrics :: "pyfloat list"
  emotional_state :: "unit option"
  style_vector :: "unit option"
  memory_buffer :: "unit list"

definition UserSession_init :: "string \<Rightarrow> string option \<Rightarrow> string \<Rightarrow> UserSession" where
  "UserSession_init uid uname now =
     \<lparr> user_id = uid, username = uname, message_count = 0, created_at = now,
       last_activity = now, cache_metrics = [], emotional_state = None,
       style_vector = None, memory_buffer = [] \<rparr>"

record UserSessionActor = BaseActor +
  sessions :: "string \<rightharpoonup> UserSession"

text \<open>Python's \<open>a % b\<close> on integers: the sign follows the divisor, and zero raises.\<close>

definition py_mod :: "int \<Rightarrow> int \<Rightarrow> exn + int" where
  "py_mod a b = (if b = 0 then Inl (ZeroDivisionError ''integer modulo by zero'') else Inr (a mod b))"

text \<open>The slice \<open>xs[-n:]\<close> for a positive \<open>n\<close>.\<close>

definition last_n :: "nat \<Rightarrow> 'a list \<Rightarrow> 'a list" where
  "last_n n xs = drop (length xs - n) xs"

definition should_include_prompt :: "config \<Rightarrow> UserSession \<Rightarrow> exn + bool" where
  "should_include_prompt cfg session =
     (let strategy = prompt_strategy cfg in
      if \<not> enable_periodic_prompt cfg then Inr True
      else if strategy = ''always'' then Inr True
      else if strategy = ''periodic'' then
        (let interval = system_prompt_interval cfg in
         case py_mod (message_count session) interval of
           Inl e \<Rightarrow> Inl e
         | Inr r \<Rightarrow> Inr (r = 1))
      else if strategy = ''adaptive'' then
        (case py_mod (message_count session) (system_prompt_interval cfg) of
           Inl e \<Rightarrow> Inl e
         | Inr r \<Rightarrow>
             if r = 1 then Inr True
             else if 5 \<le> length (cache_metrics session) then
               (let avg_cache_hit = float_div (float_sum (last_n 5 (cache_metrics session))) 5 in
                if avg_cache_hit < cache_hit_threshold cfg then Inr True else Inr False)
             else Inr False)
      else Inr False)"

definition get_prompt_reason :: "config \<Rightarrow> UserSession \<Rightarrow> prompt_reason" where
  "get_prompt_reason cfg session =
     (let strategy = prompt_strategy cfg in
      if strategy = ''always'' then always_strategy
      else if strategy = ''periodic'' then periodic_interval (system_prompt_interval cfg)
      else if strategy = ''adaptive'' then
        (if 5 \<le> length (cache_metrics session)
            \<and> float_div (float_sum (last_n 5 (cache_metrics session))) 5 < cache_hit_threshold cfg
         then low_cache_hit_rate (float_div (float_sum (last_n 5 (cache_metrics session))) 5)
         else adaptive_periodic)
      else unknown)"

definition get_or_create_session ::
  "string \<Rightarrow> string option \<Rightarrow> UserSessionActor \<Rightarrow> UserSession \<times> UserSessionActor" where
  "get_or_create_session uid uname a =
     (case sessions a uid of
        None \<Rightarrow>
          (let session = UserSession_init uid uname (clock a);
               a1 = a\<lparr> sessions := (sessions a)(uid \<mapsto> session) \<rparr>;
               event = BaseEvent_create (''user_'' @ uid) ''SessionCreatedEvent''
                         (SessionCreatedData uid uname (created_at session)) (clock a)
           in (session, append_event event a1))
      | Some session \<Rightarrow> (session, a))"

text \<open>
  \<open>_handle_user_message\<close>. The session object is shared with the session map, so the
  updated counters are written back under the same key. An exception leaves the actor as
  it was when the exception was raised.
\<close>

definition handle_user_message ::
  "config \<Rightarrow> ActorMessage \<Rightarrow> UserSessionActor \<Rightarrow> (exn + ActorMessage) \<times> UserSessionActor" where
  "handle_user_message cfg message a =
     (case p_user_id (payload message) of
        None \<Rightarrow> (Inl (KeyError ''user_id''), a)
      | Some uid \<Rightarrow>
     (let uname = p_username (payload message) in
      case p_text (payload message) of
        None \<Rightarrow> (Inl (KeyError ''text''), a)
      | Some text \<Rightarrow>
     (case p_chat_id (payload message) of
        None \<Rightarrow> (Inl (KeyError ''chat_id''), a)
      | Some chat_id \<Rightarrow>
     (let (session0, a1) = get_or_create_session uid uname a;
          session = session0\<lparr> message_count := message_count session0 + 1,
                              last_activity := clock a1 \<rparr>;
          a2 = a1\<lparr> sessions := (sessions a1)(uid \<mapsto> session) \<rparr>
      in case should_include_prompt cfg session of
           Inl e \<Rightarrow> (Inl e, a2)
         | Inr include_prompt \<Rightarrow>
             (let a3 = (if include_prompt
                        then append_event
                               (BaseEvent_create (''user_'' @ uid) ''PromptInclusionEvent''
                                  (PromptInclusionData uid (message_count session)
                                     (prompt_strategy cfg) (get_prompt_reason cfg session))
                                  (clock a2)) a2
                        else a2);
                  generate_msg = ActorMessage_create (Some (actor_id a3)) GENERATE_RESPONSE
                    (empty_payload\<lparr> p_user_id := Some uid, p_chat_id := Some chat_id,
                       p_text := Some text, p_include_prompt := Some include_prompt,
                       p_message_count := Some (message_count session),
                       p_session_data := Some (username session, created_at session) \<rparr>)
                    (clock a3)
              in (Inr generate_msg, a3))))))"

text \<open>
  \<open>_update_cache_metrics\<close>: \<open>not user_id\<close> holds for an absent and for an empty id;
  an absent rate is \<open>0.0\<close>.
\<close>

definition update_cache_metrics :: "ActorMessage \<Rightarrow> UserSessionActor \<Rightarrow> UserSessionActor" where
  "update_cache_metrics message a =
     (case p_user_id (payload message) of
        None \<Rightarrow> a
      | Some uid \<Rightarrow>
          if uid = [] then a
          else (case sessions a uid of
                  None \<Rightarrow> a
                | Some session \<Rightarrow>
                    (let cache_hit_rate = (case p_cache_hit_rate (payload message) of
                                             None \<Rightarrow> 0 | Some r \<Rightarrow> r);
                         metrics = cache_metrics session @ [cache_hit_rate];
                         metrics' = (if 20 < length metrics then last_n 20 metrics else metrics)
                     in a\<lparr> sessions := (sessions a)(uid \<mapsto> session\<lparr> cache_metrics := metrics' \<rparr>) \<rparr>)))"

text \<open>\<open>UserSessionActor.handle_message\<close>; it always returns \<open>None\<close> unless it raises.\<close>

definition UserSessionActor_handle_message ::
  "config \<Rightarrow> ActorMessage \<Rightarrow> UserSessionActor \<Rightarrow> (exn + unit) \<times> UserSessionActor" where
  "UserSessionActor_handle_message cfg message a =
     (if message_type message = USER_MESSAGE then
        (case handle_user_message cfg message a of
           (Inl e, a') \<Rightarrow> (Inl e, a')
         | (Inr generate_msg, a') \<Rightarrow> (Inr (), send_message ''generation'' generate_msg a'))
      else if message_type message = CACHE_HIT_METRIC then
        (Inr (), update_cache_metrics message a)
      else (Inr (), a))"

text \<open>
  The actor keeps its state between messages, also when a handler raised. A mailbox is a
  list of messages, each with the clock reading at which it is handled.
\<close>

definition process_all ::
  "config \<Rightarrow> (string \<times> ActorMessage) list \<Rightarrow> UserSessionActor \<Rightarrow> UserSessionActor" where
  "process_all cfg ms a =
     foldl (\<lambda>a (now, m). snd (UserSessionActor_handle_message cfg m (a\<lparr> clock := now \<rparr>))) a ms"

text \<open>\<open>UserSessionActor.__init__\<close>, for an actor attached (or not) to an actor system.\<close>

definition UserSessionActor_init :: "bool \<Rightarrow> string \<Rightarrow> UserSessionActor" where
  "UserSessionActor_init attached now =
     \<lparr> actor_id = ''user_session'', actor_system = attached, sent = [], event_log = [],
       clock = now, sessions = Map.empty \<rparr>"

section \<open>The generation actor\<close>

text \<open>
  One chunk of the streamed reply: the \<open>delta.content\<close> of each of its choices, and
  its usage record when it has one. In the usage record an absent counter is \<open>None\<close>.
\<close>

record Usage =
  prompt_cache_hit_tokens :: "int option"
  prompt_cache_miss_tokens :: "int option"

record Chunk =
  choices :: "string option list"
  usage :: "Usage option"

text \<open>
  What one call through the circuit breaker does: it raises (the breaker is open, or the
  client raised before the stream ended), or it delivers a finite stream of chunks.
\<close>

datatype api_outcome = Raises string | Stream "Chunk list"

record ChatEntry =
  role :: string
  content :: pyval

text \<open>
  The collaborators outside the repository: the backend behind the circuit breaker, which
  answers the \<open>k\<close>-th call of this actor with \<open>backend k\<close>, and \<open>json.loads\<close>, which
  returns the decoded value or the message of its \<open>JSONDecodeError\<close>.
\<close>

record env =
  backend :: "nat \<Rightarrow> api_outcome"
  json_loads :: "string \<Rightarrow> string + pyval"

record GenerationActor = BaseActor +
  generation_count :: nat
  total_cache_hits :: pyfloat
  json_failures :: nat
  api_calls :: "(ChatEntry list \<times> bool) list"

definition GenerationActor_init :: "bool \<Rightarrow> string \<Rightarrow> GenerationActor" where
  "GenerationActor_init attached now =
     \<lparr> actor_id = ''generation'', actor_system = attached, sent = [], event_log = [],
       clock = now, generation_count = 0, total_cache_hits = 0, json_failures = 0,
       api_calls = [] \<rparr>"

definition format_context :: "config \<Rightarrow> pyval \<Rightarrow> bool \<Rightarrow> bool \<Rightarrow> ChatEntry list" where
  "format_context cfg text include_prompt force_normal =
     (let messages = [];
          messages =
            (if include_prompt then
               (let use_json = (use_json_mode cfg \<and> \<not> force_normal);
                    system_prompt = (if use_json then prompt_json cfg else prompt_normal cfg)
                in messages @ [\<lparr> role = ''system'', content = PStr system_prompt \<rparr>])
             else messages)
      in messages @ [\<lparr> role = ''user'', content = text \<rparr>])"

definition log_cache_metrics ::
  "config \<Rightarrow> int \<Rightarrow> int \<Rightarrow> GenerationActor \<Rightarrow> (exn + unit) \<times> GenerationActor" where
  "log_cache_metrics cfg hit_tokens miss_tokens a =
     (let a1 = a\<lparr> generation_count := generation_count a + 1 \<rparr>;
          total_tokens = hit_tokens + miss_tokens
      in if 0 < total_tokens then
           (let cache_hit_rate = float_div (of_int hit_tokens) (of_int total_tokens);
                a2 = a1\<lparr> total_cache_hits := float_add (total_cache_hits a1) cache_hit_rate \<rparr>
            in case py_mod (int (generation_count a2)) (CACHE_HIT_LOG_INTERVAL cfg) of
                 Inl e \<Rightarrow> (Inl e, a2)
               | Inr _ \<Rightarrow>
                   (Inr (),
                    append_event
                      (BaseEvent_create ''metrics'' ''CacheHitMetricEvent''
                         (CacheHitMetricData hit_tokens miss_tokens cache_hit_rate (clock a2))
                         (clock a2)) a2))
         else (Inr (), a1))"

text \<open>
  The loop of \<open>api_call\<close> over the stream: \<open>chunk.choices[0]\<close> raises on a chunk without
  choices, a truthy content is appended, and each usage record overwrites both counters.
\<close>

fun collect_chunks :: "Chunk list \<Rightarrow> string \<Rightarrow> int \<Rightarrow> int \<Rightarrow> exn + (string \<times> int \<times> int)" where
  "collect_chunks [] full_response hit miss = Inr (full_response, hit, miss)"
| "collect_chunks (c # cs) full_response hit miss =
     (case choices c of
        [] \<Rightarrow> Inl (IndexError ''list index out of range'')
      | d # _ \<Rightarrow>
          (let full_response' = (case d of
                                   None \<Rightarrow> full_response
                                 | Some t \<Rightarrow> if t = [] then full_response else full_response @ t);
               hit' = (case usage c of
                         None \<Rightarrow> hit
                       | Some u \<Rightarrow> (case prompt_cache_hit_tokens u of None \<Rightarrow> 0 | Some h \<Rightarrow> h));
               miss' = (case usage c of
                          None \<Rightarrow> miss
                        | Some u \<Rightarrow> (case prompt_cache_miss_tokens u of None \<Rightarrow> 0 | Some m \<Rightarrow> m))
           in collect_chunks cs full_response' hit' miss'))"

text \<open>
  \<open>_call_api\<close>: the request is handed to the circuit breaker (and recorded), the stream
  is collected, and the cache metrics are logged before the text is returned.
\<close>

definition call_api ::
  "env \<Rightarrow> config \<Rightarrow> ChatEntry list \<Rightarrow> bool \<Rightarrow> GenerationActor \<Rightarrow> (exn + string) \<times> GenerationActor" where
  "call_api ev cfg messages use_json a =
     (let a1 = a\<lparr> api_calls := api_calls a @ [(messages, use_json)] \<rparr>
      in case backend ev (length (api_calls a)) of
           Raises m \<Rightarrow> (Inl (BackendError m), a1)
         | Stream chunks \<Rightarrow>
             (case collect_chunks chunks [] 0 0 of
                Inl e \<Rightarrow> (Inl e, a1)
              | Inr (full_response, hit, miss) \<Rightarrow>
                  (case log_cache_metrics cfg hit miss a1 of
                     (Inl e, a2) \<Rightarrow> (Inl e, a2)
                   | (Inr _, a2) \<Rightarrow> (Inr full_response, a2))))"

definition extract_from_json :: "env \<Rightarrow> string \<Rightarrow> string \<Rightarrow> exn + pyval" where
  "extract_from_json ev response uid =
     (case json_loads ev response of
        Inl m \<Rightarrow> Inl (JSONDecodeError m)
      | Inr d \<Rightarrow>
          (case d of
             PDict kvs \<Rightarrow>
               (case map_of kvs ''response'' of
                  Some v \<Rightarrow> Inr v
                | None \<Rightarrow> Inl (ValueError ''JSON doesn't contain 'response' field''))
           | _ \<Rightarrow> Inl (ValueError ''JSON doesn't contain 'response' field'')))"

definition log_json_failure :: "string \<Rightarrow> string \<Rightarrow> GenerationActor \<Rightarrow> GenerationActor" where
  "log_json_failure uid error a =
     append_event
       (BaseEvent_create (''user_'' @ uid) ''JSONModeFailureEvent''
          (JSONModeFailureData uid error (clock a)) (clock a)) a"

text \<open>
  \<open>_generate_response\<close>. The handler \<open>except json.JSONDecodeError\<close> covers the whole
  \<open>try\<close> block, but \<open>call_api\<close> raises no \<open>JSONDecodeError\<close>, so only the exception of
  \<open>extract_from_json\<close> can reach it; every other exception passes through.
\<close>

definition generate_response ::
  "env \<Rightarrow> config \<Rightarrow> pyval \<Rightarrow> string \<Rightarrow> bool \<Rightarrow> GenerationActor \<Rightarrow> (exn + pyval) \<times> GenerationActor" where
  "generate_response ev cfg text uid include_prompt a =
     (let messages = format_context cfg text include_prompt False;
          use_json = use_json_mode cfg
      in case call_api ev cfg messages use_json a of
           (Inl e, a1) \<Rightarrow> (Inl e, a1)
         | (Inr response, a1) \<Rightarrow>
             if use_json then
               (case extract_from_json ev response uid of
                  Inr v \<Rightarrow> (Inr v, a1)
                | Inl (JSONDecodeError m) \<Rightarrow>
                    (let a2 = a1\<lparr> json_failures := json_failures a1 + 1 \<rparr>;
                         a3 = log_json_failure uid m a2
                     in if json_fallback_enabled cfg \<and> use_json then
                          (case call_api ev cfg (format_context cfg text include_prompt True) False a3 of
                             (Inl e, a4) \<Rightarrow> (Inl e, a4)
                           | (Inr response', a4) \<Rightarrow> (Inr (PStr response'), a4))
                        else (Inr (PStr response), a3))
                | Inl e \<Rightarrow> (Inl e, a1))
             else (Inr (PStr response), a1))"

text \<open>
  The slice \<open>response_text[:50]\<close> of the log line: strings and lists can be sliced, every
  other value raises.
\<close>

fun slice_error :: "pyval \<Rightarrow> exn option" where
  "slice_error (PStr _) = None"
| "slice_error (PList _) = None"
| "slice_error PNone = Some (TypeError '''NoneType' object is not subscriptable'')"
| "slice_error (PBool _) = Some (TypeError '''bool' object is not subscriptable'')"
| "slice_error (PInt _) = Some (TypeError '''int' object is not subscriptable'')"
| "slice_error (PFloat _) = Some (TypeError '''float' object is not subscriptable'')"
| "slice_error (PDict _) = Some (TypeError (''unhashable type: 'slice'' @ [CHR 0x27]))"

definition bot_response_msg :: "GenerationActor \<Rightarrow> string \<Rightarrow> int \<Rightarrow> pyval \<Rightarrow> ActorMessage" where
  "bot_response_msg a uid chat_id response_text =
     ActorMessage_create (Some (actor_id a)) BOT_RESPONSE
       (empty_payload\<lparr> p_user_id := Some uid, p_chat_id := Some chat_id,
          p_text := Some response_text, p_generated_at := Some (clock a) \<rparr>)
       (clock a)"

definition error_msg :: "GenerationActor \<Rightarrow> string \<Rightarrow> int \<Rightarrow> exn \<Rightarrow> ActorMessage" where
  "error_msg a uid chat_id e =
     ActorMessage_create (Some (actor_id a)) ERROR
       (empty_payload\<lparr> p_user_id := Some uid, p_chat_id := Some chat_id,
          p_error := Some (str_exn e), p_error_type := Some ''generation_error'' \<rparr>)
       (clock a)"

text \<open>
  \<open>GenerationActor.handle_message\<close>. The three required keys are read before the
  \<open>try\<close> block; the block spans the generation and the log line with the slice.
\<close>

definition GenerationActor_handle_message ::
  "env \<Rightarrow> config \<Rightarrow> ActorMessage \<Rightarrow> GenerationActor \<Rightarrow> (exn + unit) \<times> GenerationActor" where
  "GenerationActor_handle_message ev cfg message a =
     (if message_type message \<noteq> GENERATE_RESPONSE then (Inr (), a)
      else
        (case p_user_id (payload message) of
           None \<Rightarrow> (Inl (KeyError ''user_id''), a)
         | Some uid \<Rightarrow>
        (case p_chat_id (payload message) of
           None \<Rightarrow> (Inl (KeyError ''chat_id''), a)
         | Some chat_id \<Rightarrow>
        (case p_text (payload message) of
           None \<Rightarrow> (Inl (KeyError ''text''), a)
         | Some text \<Rightarrow>
        (let include_prompt = (case p_include_prompt (payload message) of
                                 None \<Rightarrow> True | Some b \<Rightarrow> b)
         in case generate_response ev cfg text uid include_prompt a of
              (Inl e, a1) \<Rightarrow> (Inr (), send_message ''telegram'' (error_msg a1 uid chat_id e) a1)
            | (Inr response_text, a1) \<Rightarrow>
                (case slice_error response_text of
                   Some e \<Rightarrow> (Inr (), send_message ''telegram'' (error_msg a1 uid chat_id e) a1)
                 | None \<Rightarrow>
                     (Inr (), send_message ''telegram''
                                (bot_response_msg a1 uid chat_id response_text) a1)))))))"

section \<open>The prompt policy as a decision table\<close>



text \<open>
  The mean of the last five entries in floating point: the float sum of the five, taken
  from the oldest to the newest, divided by 5.
\<close>

definition float_mean_last5 :: "pyfloat list \<Rightarrow> pyfloat" where
  "float_mean_last5 h = float_div (float_sum (rev (take 5 (rev h)))) 5"

text \<open>The same decision table with the floating-point mean.\<close>

definition float_include_prompt :: "config \<Rightarrow> int \<Rightarrow> pyfloat list \<Rightarrow> bool" where
  "float_include_prompt cfg m h =
     (if \<not> enable_periodic_prompt cfg then True
      else if prompt_strategy cfg = ''always'' then True
      else if prompt_strategy cfg = ''periodic'' then m mod system_prompt_interval cfg = 1
      else if prompt_strategy cfg = ''adaptive'' then
        (m mod system_prompt_interval cfg = 1
         \<or> (5 \<le> length h \<and> float_mean_last5 h < cache_hit_threshold cfg))
      else False)"

section \<open>Concrete configurations and inputs\<close>

definition cfg_adaptive :: config where
  "cfg_adaptive = \<lparr> prompt_strategy = ''adaptive'', enable_periodic_prompt = True,
     system_prompt_interval = 3, cache_hit_threshold = 1/2, use_json_mode = True,
     json_fallback_enabled = True, prompt_normal = ''plain'', prompt_json = ''structured'',
     CACHE_HIT_LOG_INTERVAL = 10 \<rparr>"

definition session_low :: UserSession where
  "session_low = (UserSession_init ''u1'' None ''t0'')
      \<lparr> message_count := 2, cache_metrics := [9/10, 1/10, 1/10, 1/10, 1/10, 1/10] \<rparr>"


section \<open>Observations on the session actor\<close>

text \<open>How many \<open>SessionCreatedEvent\<close>s the log holds on the stream of a user.\<close>

definition session_created_count :: "string \<Rightarrow> BaseEvent list \<Rightarrow> nat" where
  "session_created_count uid evs =
     length (filter (\<lambda>e. event_type e = ''SessionCreatedEvent'' \<and> stream_id e = ''user_'' @ uid) evs)"

text \<open>A user turn of \<open>uid\<close> whose payload has the three required keys.\<close>

definition is_turn_of :: "string \<Rightarrow> ActorMessage \<Rightarrow> bool" where
  "is_turn_of uid m =
     (message_type m = USER_MESSAGE \<and> p_user_id (payload m) = Some uid
      \<and> p_text (payload m) \<noteq> None \<and> p_chat_id (payload m) \<noteq> None)"

definition turns_of :: "string \<Rightarrow> (string \<times> ActorMessage) list \<Rightarrow> nat" where
  "turns_of uid ms = length (filter (\<lambda>(now, m). is_turn_of uid m) ms)"

text \<open>The message counter stored for a user, if the user has a session.\<close>

definition counter_of :: "UserSessionActor \<Rightarrow> string \<Rightarrow> int option" where
  "counter_of a uid = map_option message_count (sessions a uid)"

definition turn_msg :: "string \<Rightarrow> string \<Rightarrow> ActorMessage" where
  "turn_msg uid txt = ActorMessage_create (Some ''telegram'') USER_MESSAGE
     (empty_payload\<lparr> p_user_id := Some uid, p_text := Some (PStr txt), p_chat_id := Some 7 \<rparr>) ''t''"

definition actor_with_u1 :: UserSessionActor where
  "actor_with_u1 = (UserSessionActor_init True ''t0'')\<lparr> sessions := [''u1'' \<mapsto> session_low] \<rparr>"

text \<open>A cache-metric message addressed to the session of \<open>uid\<close>.\<close>

definition metric_for :: "string \<Rightarrow> ActorMessage \<Rightarrow> bool" where
  "metric_for uid m = (message_type m = CACHE_HIT_METRIC \<and> p_user_id (payload m) = Some uid)"

text \<open>The rate a cache-metric message carries (\<open>0.0\<close> when the key is absent).\<close>

definition rate_of :: "ActorMessage \<Rightarrow> rat" where
  "rate_of m = (case p_cache_hit_rate (payload m) of None \<Rightarrow> 0 | Some r \<Rightarrow> r)"

text \<open>The rates that a mailbox inserts into the history of \<open>uid\<close>, in order of arrival.\<close>

definition rates_for :: "string \<Rightarrow> (string \<times> ActorMessage) list \<Rightarrow> rat list" where
  "rates_for uid ms = map rate_of (filter (metric_for uid) (map snd ms))"

text \<open>The rolling history stored for a user, if the user has a session.\<close>

definition history_of :: "UserSessionActor \<Rightarrow> string \<Rightarrow> rat list option" where
  "history_of a uid = map_option cache_metrics (sessions a uid)"

definition metric_msg :: "string \<Rightarrow> rat \<Rightarrow> ActorMessage" where
  "metric_msg uid r = ActorMessage_create (Some ''generation'') CACHE_HIT_METRIC
     (empty_payload\<lparr> p_user_id := Some uid, p_cache_hit_rate := Some r \<rparr>) ''t''"

text \<open>Twenty-five metric messages for user \<open>u1\<close>, with the rates 0.01, ..., 0.25.\<close>

definition metrics25 :: "(string \<times> ActorMessage) list" where
  "metrics25 = map (\<lambda>k. (''t'', metric_msg ''u1'' (of_nat k / 100))) [1..<26]"

section \<open>Observations on the generation actor\<close>

text \<open>
  The token counts of a stream's usage record: those of the last chunk that has one (an
  absent counter is zero), and zero for both when no chunk has one.
\<close>

definition stream_usage :: "Chunk list \<Rightarrow> int \<times> int" where
  "stream_usage chunks =
     (case rev (List.map_filter usage chunks) of
        [] \<Rightarrow> (0, 0)
      | u # _ \<Rightarrow> (case prompt_cache_hit_tokens u of None \<Rightarrow> 0 | Some h \<Rightarrow> h,
                  case prompt_cache_miss_tokens u of None \<Rightarrow> 0 | Some m \<Rightarrow> m))"

text \<open>The \<open>CacheHitMetricEvent\<close> for given counts and rate, created at time \<open>now\<close>.\<close>

definition cache_hit_metric_event :: "int \<Rightarrow> int \<Rightarrow> rat \<Rightarrow> string \<Rightarrow> BaseEvent" where
  "cache_hit_metric_event hit miss rate now =
     \<lparr> stream_id = ''metrics'', event_type = ''CacheHitMetricEvent'', event_timestamp = now,
       data = CacheHitMetricData hit miss rate now, version = 0, correlation_id = None \<rparr>"

section \<open>Concrete backends and requests\<close>

definition text_chunk :: "string \<Rightarrow> Chunk" where
  "text_chunk t = \<lparr> choices = [Some t], usage = None \<rparr>"

definition usage_chunk :: "int \<Rightarrow> int \<Rightarrow> Chunk" where
  "usage_chunk h m = \<lparr> choices = [None],
     usage = Some \<lparr> prompt_cache_hit_tokens = Some h, prompt_cache_miss_tokens = Some m \<rparr> \<rparr>"

text \<open>What \<open>json.loads\<close> returns on the texts used below; any other text is not JSON here.\<close>

definition json_loads_sample :: "string \<Rightarrow> string + pyval" where
  \<open>json_loads_sample s =
     (if s = ''{"response": "hi"}'' then Inr (PDict [(''response'', PStr ''hi'')])
      else if s = ''{"foo": 1}'' then Inr (PDict [(''foo'', PInt 1)])
      else Inl ''Expecting value: line 1 column 1 (char 0)'')\<close>

text \<open>A backend that streams the given pieces of text and a final usage record of 30 hits and 70 misses, on every call.\<close>

definition env_stream :: "string list \<Rightarrow> env" where
  "env_stream parts =
     \<lparr> backend = (\<lambda>k. Stream (map text_chunk parts @ [usage_chunk 30 70])),
       json_loads = json_loads_sample \<rparr>"

text \<open>A backend whose usage record reports no tokens at all.\<close>

definition env_no_tokens :: env where
  "env_no_tokens =
     \<lparr> backend = (\<lambda>k. Stream [text_chunk ''ok'', usage_chunk 0 0]),
       json_loads = json_loads_sample \<rparr>"

definition gen_msg :: ActorMessage where
  "gen_msg = ActorMessage_create (Some ''user_session'') GENERATE_RESPONSE
     (empty_payload\<lparr> p_user_id := Some ''u1'', p_chat_id := Some 7,
        p_text := Some (PStr ''hello''), p_include_prompt := Some False,
        p_message_count := Some 2, p_session_data := Some (None, ''t0'') \<rparr>) ''t''"

definition cfg_nofallback :: config where
  "cfg_nofallback = cfg_adaptive\<lparr> json_fallback_enabled := False \<rparr>"

text \<open>A backend whose circuit breaker rejects every call.\<close>

definition env_down :: env where
  "env_down = \<lparr> backend = (\<lambda>k. Raises ''circuit breaker is open''),
                json_loads = json_loads_sample \<rparr>"

text \<open>
  Whether the list of sent messages holds a cache-metric message for the user, addressed
  to the session actor.
\<close>

definition forwards_cache_metric :: "string \<Rightarrow> (string \<times> ActorMessage) list \<Rightarrow> bool" where
  "forwards_cache_metric uid out =
     list_ex (\<lambda>(target, msg). target = ''user_session'' \<and> message_type msg = CACHE_HIT_METRIC
                \<and> p_user_id (payload msg) = Some uid) out"

text \<open>The value of \<open>payload.get('include_prompt', True)\<close>.\<close>

definition include_prompt_of :: "ActorMessage \<Rightarrow> bool" where
  "include_prompt_of m = (case p_include_prompt (payload m) of None \<Rightarrow> True | Some b \<Rightarrow> b)"

text \<open>
  The generation actor after one request whose backend reply is the JSON document
  \<open>{"foo": 1}\<close>, with the JSON fallback enabled and disabled.
\<close>

definition after_missing_field :: "config \<Rightarrow> GenerationActor" where
  \<open>after_missing_field cfg =
     snd (GenerationActor_handle_message (env_stream [''{"foo": 1}'']) cfg gen_msg
            (GenerationActor_init True ''t0''))\<close>

text \<open>The same for a reply that is not JSON at all, and for a well-formed reply.\<close>

definition after_not_json :: "config \<Rightarrow> GenerationActor" where
  "after_not_json cfg =
     snd (GenerationActor_handle_message (env_stream [''not json'']) cfg gen_msg
            (GenerationActor_init True ''t0''))"

definition after_hi :: "ActorMessage \<Rightarrow> GenerationActor" where
  \<open>after_hi m =
     snd (GenerationActor_handle_message (env_stream [''{"response": '', ''"hi"}'']) cfg_adaptive m
            (GenerationActor_init True ''t0''))\<close>

text \<open>The request \<open>gen_msg\<close> without the \<open>include_prompt\<close> key, and without \<open>user_id\<close>.\<close>

definition gen_msg_no_flag :: ActorMessage where
  "gen_msg_no_flag = gen_msg\<lparr> payload := (payload gen_msg)\<lparr> p_include_prompt := None \<rparr> \<rparr>"

definition gen_msg_no_user :: ActorMessage where
  "gen_msg_no_user = gen_msg\<lparr> payload := (payload gen_msg)\<lparr> p_user_id := None \<rparr> \<rparr>"

text \<open>Target, type, text and error description of each sent message.\<close>

definition sent_summary ::
  "GenerationActor \<Rightarrow> (string \<times> MessageType \<times> pyval option \<times> string option) list" where
  "sent_summary a =
     map (\<lambda>(target, msg). (target, message_type msg, p_text (payload msg), p_error (payload msg)))
       (sent a)"

text \<open>How many \<open>JSONModeFailureEvent\<close>s the log holds.\<close>

definition json_failure_events :: "GenerationActor \<Rightarrow> nat" where
  "json_failure_events a =
     length (filter (\<lambda>e. event_type e = ''JSONModeFailureEvent'') (event_log a))"

section \<open>Properties\<close>

subsection \<open>Evaluating floating-point operations\<close>

lemma nat_int_Suc: "nat (int k + 1) = Suc k" "nat (1 + int k) = Suc k"
  by arith+

lemma bitlen_eqI: "2 ^ k \<le> n \<Longrightarrow> n < 2 ^ Suc k \<Longrightarrow> bitlen n = int k + 1"
  by (intro antisym) (auto simp: bitlen_le_iff_power bitlen_ge_iff_power nat_add_distrib)

lemma binade_ge1:
  assumes "(2::rat) ^ k \<le> x" "x < 2 ^ Suc k"
  shows "binade x = int k"
proof -
  have "(1::rat) \<le> 2 ^ k" by simp
  with assms(1) have x1: "1 \<le> x" by linarith
  have "of_int (2 ^ k) \<le> x" using assms(1) by simp
  then have l: "2 ^ k \<le> \<lfloor>x\<rfloor>" by (simp only: le_floor_iff)
  have "x < of_int (2 ^ Suc k)" using assms(2) by simp
  then have u: "\<lfloor>x\<rfloor> < 2 ^ Suc k" by (simp only: floor_less_iff)
  from bitlen_eqI [OF l u] x1 show ?thesis by (simp add: binade_def)
qed

lemma binade_lt1:
  assumes "1 / 2 ^ Suc k \<le> x" "x < 1 / (2::rat) ^ k"
  shows "binade x = - int (Suc k)"
proof -
  have "0 < 1 / (2::rat) ^ Suc k" by simp
  with assms(1) have xp: "0 < x" by linarith
  have "1 / (2::rat) ^ k \<le> 1" by simp
  with assms(2) have x1: "\<not> 1 \<le> x" by linarith
  have lo: "2 ^ k < 1 / x" using assms(2) xp by (simp add: field_simps)
  have hi: "1 / x \<le> 2 ^ Suc k" using assms(1) xp by (simp add: field_simps)
  have "of_int (2 ^ k) \<le> 1 / x" using lo by simp
  then have l: "2 ^ k \<le> \<lfloor>1 / x\<rfloor>" by (simp only: le_floor_iff)
  show ?thesis
  proof (cases "x = 1 / 2 ^ Suc k")
    case True
    then have "1 / x = of_int (2 ^ Suc k)" by simp
    then have "\<lfloor>1 / x\<rfloor> = 2 ^ Suc k" by (simp only: floor_of_int)
    then have "bitlen \<lfloor>1 / x\<rfloor> = int (Suc k) + 1"
      using bitlen_eqI [of "Suc k" "2 ^ Suc k"] by simp
    with True x1 show ?thesis
      by (simp add: binade_def pow2_def Let_def nat_int_Suc)
  next
    case False
    with hi xp have "1 / x < 2 ^ Suc k" by (auto simp: field_simps)
    then have "1 / x < of_int (2 ^ Suc k)" by simp
    then have u: "\<lfloor>1 / x\<rfloor> < 2 ^ Suc k" by (simp only: floor_less_iff)
    from bitlen_eqI [OF l u] have b: "bitlen \<lfloor>1 / x\<rfloor> = int k + 1" .
    have "x \<noteq> pow2 (- int k)" using assms(2) by (auto simp: pow2_def)
    with b x1 show ?thesis
      by (simp add: binade_def Let_def)
  qed
qed

lemma binade_unique:
  assumes "pow2 e \<le> x" "x < pow2 (e + 1)"
  shows "binade x = e"
proof (cases "0 \<le> e")
  case True
  then have "nat (e + 1) = Suc (nat e)" by simp
  with assms True binade_ge1 [of "nat e" x] show ?thesis
    by (simp add: pow2_def)
next
  case False
  define k where "k = nat (- e - 1)"
  from False have k: "e = - int (Suc k)" by (simp add: k_def)
  have p1: "pow2 e = 1 / 2 ^ Suc k" by (simp add: pow2_def k nat_int_Suc)
  have p2: "pow2 (e + 1) = 1 / 2 ^ k" by (cases k) (simp_all add: pow2_def k nat_int_Suc)
  have a1: "1 / 2 ^ Suc k \<le> x" using assms(1) unfolding p1 .
  have a2: "x < 1 / 2 ^ k" using assms(2) unfolding p2 .
  from binade_lt1 [OF a1 a2] show ?thesis unfolding k .
qed

lemma floor_numeral_div: "\<lfloor>numeral a / numeral b :: rat\<rfloor> = numeral a div numeral b"
  using floor_divide_of_int_eq [of "numeral a" "numeral b", where ?'a = rat] by simp

text \<open>The double nearest to a positive rational, once its binade is known.\<close>

lemma double_eval:
  assumes "pow2 (e + 52) \<le> x" "x < pow2 (e + 53)"
  shows "double x = of_int (round_half_even (x / pow2 e)) * pow2 e"
proof -
  have "0 < pow2 (e + 52)" by (simp add: pow2_def)
  with assms(1) have xp: "0 < x" by linarith
  have "binade x = e + 52" using binade_unique [of "e + 52" x] assms by (simp add: add.assoc)
  with xp show ?thesis by (simp add: double_def Let_def)
qed





lemma d_30_100: "float_div 30 100 = 5404319552844595 / 18014398509481984"
  unfolding float_div_def
  by (subst double_eval [of "-54"]) (simp_all add: pow2_def round_half_even_def Let_def floor_numeral_div)










subsection \<open>The prompt-inclusion decision\<close>

lemma last_n_rev_take: "last_n n xs = rev (take n (rev xs))"
  by (simp add: last_n_def take_rev)

lemma should_include_table:
  assumes "system_prompt_interval cfg \<noteq> 0"
  shows "should_include_prompt cfg session
           = Inr (float_include_prompt cfg (message_count session) (cache_metrics session))"
  using assms
  by (simp add: should_include_prompt_def float_include_prompt_def py_mod_def
        float_mean_last5_def last_n_rev_take Let_def)




subsection \<open>Session creation and the message counter\<close>

lemma count_append:
  "session_created_count uid (evs @ [e]) = session_created_count uid evs
     + (if event_type e = ''SessionCreatedEvent'' \<and> stream_id e = ''user_'' @ uid then 1 else 0)"
  by (simp add: session_created_count_def)

lemma goc_sessions:
  "get_or_create_session u n a = (s, a') \<Longrightarrow>
     sessions a' = (sessions a)(u \<mapsto> s) \<and> clock a' = clock a \<and> sent a' = sent a
     \<and> actor_id a' = actor_id a \<and> actor_system a' = actor_system a
     \<and> (case sessions a u of
           None \<Rightarrow> s = UserSession_init u n (clock a)
                    \<and> event_log a' = event_log a @ [BaseEvent_create (''user_'' @ u) ''SessionCreatedEvent''
                         (SessionCreatedData u n (clock a)) (clock a)]
         | Some s0 \<Rightarrow> s = s0 \<and> event_log a' = event_log a)"
  by (auto simp: get_or_create_session_def Let_def append_event_def UserSession_init_def
      split: option.splits)

lemma hum_valid:
  assumes "p_user_id (payload m) = Some u" "p_text (payload m) = Some t" "p_chat_id (payload m) = Some c"
  shows "\<exists>s extra. sessions (snd (handle_user_message cfg m a)) = (sessions a)(u \<mapsto> s)
        \<and> s = (case sessions a u of
                 None \<Rightarrow> (UserSession_init u (p_username (payload m)) (clock a))
                            \<lparr> message_count := 1, last_activity := clock a \<rparr>
               | Some s0 \<Rightarrow> s0\<lparr> message_count := message_count s0 + 1, last_activity := clock a \<rparr>)
        \<and> event_log (snd (handle_user_message cfg m a)) =
             event_log a
             @ (case sessions a u of
                  None \<Rightarrow> [BaseEvent_create (''user_'' @ u) ''SessionCreatedEvent''
                             (SessionCreatedData u (p_username (payload m)) (clock a)) (clock a)]
                | Some _ \<Rightarrow> [])
             @ extra
        \<and> (\<forall>e\<in>set extra. event_type e = ''PromptInclusionEvent'')"
proof -
  obtain s0 a1 where g: "get_or_create_session u (p_username (payload m)) a = (s0, a1)"
    by (cases "get_or_create_session u (p_username (payload m)) a")
  note G = goc_sessions [OF g]
  let ?s = "s0\<lparr> message_count := message_count s0 + 1, last_activity := clock a1 \<rparr>"
  show ?thesis
    apply (rule exI [of _ ?s])
    using G assms g
    apply (cases "sessions a u"; cases "should_include_prompt cfg ?s")
       apply (auto simp: handle_user_message_def Let_def append_event_def UserSession_init_def
        BaseEvent_create_def split: option.splits)
    done
qed

lemma ucm_counter:
  "counter_of (update_cache_metrics m a) uid = counter_of a uid
   \<and> event_log (update_cache_metrics m a) = event_log a"
  by (auto simp: update_cache_metrics_def counter_of_def Let_def split: option.splits)

lemma hum_invalid:
  "p_user_id (payload m) = None \<or> p_text (payload m) = None \<or> p_chat_id (payload m) = None
   \<Longrightarrow> snd (handle_user_message cfg m a) = a"
  by (auto simp: handle_user_message_def Let_def split: option.splits)

lemma snd_handle_user:
  "message_type m = USER_MESSAGE \<Longrightarrow>
   sessions (snd (UserSessionActor_handle_message cfg m a)) = sessions (snd (handle_user_message cfg m a))
   \<and> event_log (snd (UserSessionActor_handle_message cfg m a)) = event_log (snd (handle_user_message cfg m a))"
  by (auto simp: UserSessionActor_handle_message_def send_message_def split: prod.splits sum.splits)

lemma user_prefix_inj: "(''user_'' @ u = ''user_'' @ v) = (u = v)"
  by simp

lemma count_extra:
  "\<forall>e\<in>set extra. event_type e = ''PromptInclusionEvent'' \<Longrightarrow>
   session_created_count uid (evs @ extra) = session_created_count uid evs"
  by (induction extra rule: rev_induct)
     (auto simp: session_created_count_def)

lemma step_counter:
  "counter_of (snd (UserSessionActor_handle_message cfg m a)) uid =
     (if is_turn_of uid m
      then Some (case counter_of a uid of None \<Rightarrow> 1 | Some k \<Rightarrow> k + 1)
      else counter_of a uid)"
proof (cases "message_type m = USER_MESSAGE")
  case False
  then show ?thesis
    using ucm_counter [of m a uid]
    by (auto simp: UserSessionActor_handle_message_def is_turn_of_def)
next
  case um: True
  show ?thesis
  proof (cases "p_user_id (payload m) = None \<or> p_text (payload m) = None \<or> p_chat_id (payload m) = None")
    case True
    then have "snd (handle_user_message cfg m a) = a" by (rule hum_invalid)
    with snd_handle_user [OF um, of cfg a] True show ?thesis
      by (auto simp: counter_of_def is_turn_of_def)
  next
    case False
    then obtain u t c where v: "p_user_id (payload m) = Some u" "p_text (payload m) = Some t"
        "p_chat_id (payload m) = Some c" by auto
    from hum_valid [OF v, of cfg a] snd_handle_user [OF um, of cfg a] v um show ?thesis
      by (auto simp: counter_of_def is_turn_of_def split: option.splits)
  qed
qed

lemma step_created:
  "session_created_count uid (event_log (snd (UserSessionActor_handle_message cfg m a))) =
     session_created_count uid (event_log a)
       + (if is_turn_of uid m \<and> counter_of a uid = None then 1 else 0)"
proof (cases "message_type m = USER_MESSAGE")
  case False
  then show ?thesis
    using ucm_counter [of m a uid]
    by (auto simp: UserSessionActor_handle_message_def is_turn_of_def)
next
  case um: True
  show ?thesis
  proof (cases "p_user_id (payload m) = None \<or> p_text (payload m) = None \<or> p_chat_id (payload m) = None")
    case True
    then have "snd (handle_user_message cfg m a) = a" by (rule hum_invalid)
    with snd_handle_user [OF um, of cfg a] True show ?thesis
      by (auto simp: counter_of_def is_turn_of_def)
  next
    case False
    then obtain u t c where v: "p_user_id (payload m) = Some u" "p_text (payload m) = Some t"
        "p_chat_id (payload m) = Some c" by auto
    from hum_valid [OF v, of cfg a] obtain s extra where
      ev: "event_log (snd (handle_user_message cfg m a)) =
             event_log a
             @ (case sessions a u of
                  None \<Rightarrow> [BaseEvent_create (''user_'' @ u) ''SessionCreatedEvent''
                             (SessionCreatedData u (p_username (payload m)) (clock a)) (clock a)]
                | Some _ \<Rightarrow> [])
             @ extra"
      and ex: "\<forall>e\<in>set extra. event_type e = ''PromptInclusionEvent''"
      by blast
    have "session_created_count uid (event_log (snd (handle_user_message cfg m a))) =
            session_created_count uid (event_log a)
              + (if u = uid \<and> sessions a u = None then 1 else 0)"
      unfolding ev append_assoc [symmetric] count_extra [OF ex]
      by (auto simp: count_append BaseEvent_create_def split: option.splits)
    with snd_handle_user [OF um, of cfg a] v um show ?thesis
      by (auto simp: counter_of_def is_turn_of_def)
  qed
qed

lemma process_all_snoc:
  "process_all cfg (ms @ [(now, m)]) a =
     snd (UserSessionActor_handle_message cfg m ((process_all cfg ms a)\<lparr> clock := now \<rparr>))"
  by (simp add: process_all_def)

lemma counter_clock: "counter_of (a\<lparr> clock := now \<rparr>) uid = counter_of a uid"
  by (simp add: counter_of_def)

lemma run_from_init:
  "counter_of (process_all cfg ms (UserSessionActor_init attached now0)) uid =
      (if turns_of uid ms = 0 then None else Some (int (turns_of uid ms)))
   \<and> session_created_count uid (event_log (process_all cfg ms (UserSessionActor_init attached now0))) =
      (if turns_of uid ms = 0 then 0 else 1)"
proof (induction ms rule: rev_induct)
  case Nil
  show ?case
    by (simp add: process_all_def UserSessionActor_init_def counter_of_def turns_of_def
        session_created_count_def)
next
  case (snoc x ms)
  obtain now m where x: "x = (now, m)" by (cases x)
  have t: "turns_of uid (ms @ [x]) = turns_of uid ms + (if is_turn_of uid m then 1 else 0)"
    by (simp add: turns_of_def x)
  from snoc show ?case
    unfolding x process_all_snoc step_counter step_created t [unfolded x]
    by (auto simp: counter_clock)
qed

text \<open>
  Claim C4. Starting from a fresh actor and processing any mailbox, the log holds exactly
  one \<open>SessionCreatedEvent\<close> for a user once that user has sent a turn (none before),
  and the stored message counter equals the number of that user's turns so far: the event
  is emitted on the first turn only and the counter grows by one per turn without ever
  being reset. A turn of a user who already has a session reuses the stored session (only
  the counter and the activity time change) and adds no \<open>SessionCreatedEvent\<close> for
  any user.
\<close>

theorem C4_session_created_once:
  "(session_created_count uid (event_log (process_all cfg ms (UserSessionActor_init attached now0)))
      = (if turns_of uid ms = 0 then 0 else 1)
    \<and> counter_of (process_all cfg ms (UserSessionActor_init attached now0)) uid
      = (if turns_of uid ms = 0 then None else Some (int (turns_of uid ms))))
   \<and> (is_turn_of uid m \<and> sessions a uid = Some s \<longrightarrow>
        sessions (snd (UserSessionActor_handle_message cfg m a)) uid
          = Some (s\<lparr> message_count := message_count s + 1, last_activity := clock a \<rparr>)
        \<and> session_created_count u' (event_log (snd (UserSessionActor_handle_message cfg m a)))
          = session_created_count u' (event_log a))"
proof (intro conjI impI)
  show "session_created_count uid (event_log (process_all cfg ms (UserSessionActor_init attached now0)))
      = (if turns_of uid ms = 0 then 0 else 1)"
    using run_from_init [of cfg ms attached now0 uid] by blast
  show "counter_of (process_all cfg ms (UserSessionActor_init attached now0)) uid
      = (if turns_of uid ms = 0 then None else Some (int (turns_of uid ms)))"
    using run_from_init [of cfg ms attached now0 uid] by blast
next
  assume h: "is_turn_of uid m \<and> sessions a uid = Some s"
  then obtain t c where v: "p_user_id (payload m) = Some uid" "p_text (payload m) = Some t"
      "p_chat_id (payload m) = Some c" and um: "message_type m = USER_MESSAGE"
    by (auto simp: is_turn_of_def)
  from hum_valid [OF v, of cfg a] snd_handle_user [OF um, of cfg a] h
  show "sessions (snd (UserSessionActor_handle_message cfg m a)) uid
          = Some (s\<lparr> message_count := message_count s + 1, last_activity := clock a \<rparr>)"
    by auto
  from h have "counter_of a uid \<noteq> None" by (simp add: counter_of_def)
  moreover have "is_turn_of u' m \<Longrightarrow> u' = uid" using v by (simp add: is_turn_of_def)
  ultimately show "session_created_count u' (event_log (snd (UserSessionActor_handle_message cfg m a)))
          = session_created_count u' (event_log a)"
    unfolding step_created by auto
qed

lemma is_turn_msg: "is_turn_of u (turn_msg v txt) = (u = v)"
  by (auto simp: is_turn_of_def turn_msg_def ActorMessage_create_def empty_payload_def)

theorem C4_session_created_once_witness:
  "session_created_count ''u1'' (event_log (process_all cfg_adaptive
       [(''t1'', turn_msg ''u1'' ''hello''), (''t2'', turn_msg ''u2'' ''hi''), (''t3'', turn_msg ''u1'' ''again'')]
       (UserSessionActor_init True ''t0''))) = 1
   \<and> counter_of (process_all cfg_adaptive
       [(''t1'', turn_msg ''u1'' ''hello''), (''t2'', turn_msg ''u2'' ''hi''), (''t3'', turn_msg ''u1'' ''again'')]
       (UserSessionActor_init True ''t0'')) ''u1'' = Some 2
   \<and> is_turn_of ''u1'' (turn_msg ''u1'' ''again'') \<and> sessions actor_with_u1 ''u1'' = Some session_low
   \<and> map_option message_count
       (sessions (snd (UserSessionActor_handle_message cfg_adaptive (turn_msg ''u1'' ''again'') actor_with_u1)) ''u1'')
       = Some 3"
proof -
  have t: "turns_of ''u1'' [(''t1'', turn_msg ''u1'' ''hello''), (''t2'', turn_msg ''u2'' ''hi''),
             (''t3'', turn_msg ''u1'' ''again'')] = 2"
    by (simp add: turns_of_def is_turn_msg)
  have p: "is_turn_of ''u1'' (turn_msg ''u1'' ''again'') \<and> sessions actor_with_u1 ''u1'' = Some session_low"
    by (simp add: is_turn_msg actor_with_u1_def)
  have mc: "message_count session_low = 2"
    by (simp add: session_low_def UserSession_init_def)
  from C4_session_created_once [of "''u1''" cfg_adaptive
      "[(''t1'', turn_msg ''u1'' ''hello''), (''t2'', turn_msg ''u2'' ''hi''), (''t3'', turn_msg ''u1'' ''again'')]"
      True "''t0''" "turn_msg ''u1'' ''again''" actor_with_u1 session_low "''u1''"] p
  show ?thesis
    unfolding t by (simp add: mc)
qed

subsection \<open>The rolling cache-hit history\<close>

lemma last_n_short: "length xs \<le> n \<Longrightarrow> last_n n xs = xs"
  by (simp add: last_n_def)

lemma length_last_n: "length (last_n n xs) = min n (length xs)"
  by (simp add: last_n_def)

lemma last_n_snoc_last_n: "0 < n \<Longrightarrow> last_n n (last_n n xs @ [x]) = last_n n (xs @ [x])"
  by (cases "length xs \<le> n") (auto simp: last_n_def Suc_diff_le)

lemma last_n_append_long: "n \<le> length ys \<Longrightarrow> last_n n (xs @ ys) = last_n n ys"
  by (simp add: last_n_def)

lemma ucm_history:
  "history_of (update_cache_metrics m a) uid =
     (if p_user_id (payload m) = Some uid \<and> uid \<noteq> []
      then map_option (\<lambda>h. last_n 20 (h @ [rate_of m])) (history_of a uid)
      else history_of a uid)"
  by (auto simp: update_cache_metrics_def history_of_def rate_of_def Let_def last_n_short
      split: option.splits)

lemma step_history:
  "history_of (snd (UserSessionActor_handle_message cfg m a)) uid =
     (if metric_for uid m \<and> uid \<noteq> []
      then map_option (\<lambda>h. last_n 20 (h @ [rate_of m])) (history_of a uid)
      else if is_turn_of uid m \<and> history_of a uid = None then Some []
      else history_of a uid)"
proof (cases "message_type m = USER_MESSAGE")
  case False
  then show ?thesis
    using ucm_history [of m a uid]
    by (auto simp: UserSessionActor_handle_message_def is_turn_of_def metric_for_def)
next
  case um: True
  then have nm: "\<not> metric_for uid m" by (simp add: metric_for_def)
  show ?thesis
  proof (cases "p_user_id (payload m) = None \<or> p_text (payload m) = None \<or> p_chat_id (payload m) = None")
    case True
    then have "snd (handle_user_message cfg m a) = a" by (rule hum_invalid)
    with snd_handle_user [OF um, of cfg a] True nm show ?thesis
      by (auto simp: history_of_def is_turn_of_def)
  next
    case False
    then obtain u t c where v: "p_user_id (payload m) = Some u" "p_text (payload m) = Some t"
        "p_chat_id (payload m) = Some c" by auto
    from hum_valid [OF v, of cfg a] snd_handle_user [OF um, of cfg a] v um nm show ?thesis
      by (auto simp: history_of_def is_turn_of_def UserSession_init_def split: option.splits)
  qed
qed

text \<open>Inserting rates one after the other into a history kept at twenty entries.\<close>

lemma roll_last_n:
  "rs \<noteq> [] \<Longrightarrow> foldl (\<lambda>h r. last_n 20 (h @ [r])) h0 rs = last_n 20 (h0 @ rs)"
proof (induction rs rule: rev_induct)
  case Nil
  then show ?case by simp
next
  case (snoc r rs)
  show ?case
  proof (cases "rs = []")
    case True
    then show ?thesis by simp
  next
    case False
    with snoc have "foldl (\<lambda>h r. last_n 20 (h @ [r])) h0 rs = last_n 20 (h0 @ rs)" by simp
    then show ?thesis
      using last_n_snoc_last_n [of 20 "h0 @ rs" r] by simp
  qed
qed

lemma history_clock: "history_of (a\<lparr> clock := now \<rparr>) uid = history_of a uid"
  by (simp add: history_of_def)

lemma run_history:
  assumes "uid \<noteq> []" "history_of a uid = Some h0"
  shows "history_of (process_all cfg ms a) uid
           = Some (foldl (\<lambda>h r. last_n 20 (h @ [r])) h0 (rates_for uid ms))"
proof (induction ms rule: rev_induct)
  case Nil
  show ?case using assms by (simp add: process_all_def rates_for_def)
next
  case (snoc x ms)
  obtain now m where x: "x = (now, m)" by (cases x)
  from snoc assms(1) show ?case
    unfolding x process_all_snoc step_history
    by (simp add: history_clock rates_for_def)
qed

lemma bounded_step:
  assumes "\<forall>u h. history_of a u = Some h \<longrightarrow> length h \<le> 20"
  shows "\<forall>u h. history_of (snd (UserSessionActor_handle_message cfg m a)) u = Some h \<longrightarrow> length h \<le> 20"
  using assms unfolding step_history
  by (auto simp: length_last_n split: if_splits)

lemma bounded_run:
  "\<forall>u h. history_of (process_all cfg ms (UserSessionActor_init attached now0)) u = Some h
      \<longrightarrow> length h \<le> 20"
proof (induction ms rule: rev_induct)
  case Nil
  show ?case by (simp add: process_all_def UserSessionActor_init_def history_of_def)
next
  case (snoc x ms)
  obtain now m where x: "x = (now, m)" by (cases x)
  have "\<forall>u h. history_of ((process_all cfg ms (UserSessionActor_init attached now0))\<lparr> clock := now \<rparr>) u = Some h
      \<longrightarrow> length h \<le> 20"
    using snoc by (simp add: history_clock)
  from bounded_step [OF this] show ?case
    unfolding x process_all_snoc .
qed

text \<open>
  Claim C5. (1) After a cache-metric update for a user with a session, that session's
  history has at most 20 entries, whatever it held before; and from a fresh actor no
  mailbox ever leaves a history longer than 20. (2) Once a mailbox has inserted at least
  20 rates into the history of a session, the history is exactly the last 20 rates
  inserted, in insertion order. (3) A cache-metric message for a user without a session
  returns without an error and leaves the actor as it was.
\<close>

theorem C5_rolling_history:
  "(uid \<noteq> [] \<and> metric_for uid m \<and> history_of a uid = Some h0 \<longrightarrow>
      history_of (snd (UserSessionActor_handle_message cfg m a)) uid = Some (last_n 20 (h0 @ [rate_of m]))
      \<and> length (last_n 20 (h0 @ [rate_of m])) \<le> 20)
   \<and> (history_of (process_all cfg ms (UserSessionActor_init attached now0)) u = Some h
        \<longrightarrow> length h \<le> 20)
   \<and> (uid \<noteq> [] \<and> history_of a uid = Some h0 \<and> 20 \<le> length (rates_for uid ms) \<longrightarrow>
        history_of (process_all cfg ms a) uid = Some (last_n 20 (rates_for uid ms)))
   \<and> (metric_for uid m \<and> sessions a uid = None \<longrightarrow>
        UserSessionActor_handle_message cfg m a = (Inr (), a))"
proof (intro conjI impI)
  assume h: "uid \<noteq> [] \<and> metric_for uid m \<and> history_of a uid = Some h0"
  then show "history_of (snd (UserSessionActor_handle_message cfg m a)) uid
               = Some (last_n 20 (h0 @ [rate_of m]))"
    unfolding step_history by simp
  show "length (last_n 20 (h0 @ [rate_of m])) \<le> 20"
    by (simp add: length_last_n)
next
  assume "history_of (process_all cfg ms (UserSessionActor_init attached now0)) u = Some h"
  with bounded_run [of cfg ms attached now0] show "length h \<le> 20" by blast
next
  assume h: "uid \<noteq> [] \<and> history_of a uid = Some h0 \<and> 20 \<le> length (rates_for uid ms)"
  then have ne: "rates_for uid ms \<noteq> []" by auto
  from h have "history_of (process_all cfg ms a) uid
                 = Some (foldl (\<lambda>h r. last_n 20 (h @ [r])) h0 (rates_for uid ms))"
    by (simp add: run_history)
  also have "\<dots> = Some (last_n 20 (h0 @ rates_for uid ms))"
    by (simp add: roll_last_n [OF ne])
  also have "\<dots> = Some (last_n 20 (rates_for uid ms))"
    using h by (simp add: last_n_append_long)
  finally show "history_of (process_all cfg ms a) uid = Some (last_n 20 (rates_for uid ms))" .
next
  assume "metric_for uid m \<and> sessions a uid = None"
  then show "UserSessionActor_handle_message cfg m a = (Inr (), a)"
    by (auto simp: UserSessionActor_handle_message_def update_cache_metrics_def metric_for_def)
qed

lemma metric_for_msg: "metric_for u (metric_msg v r) = (u = v)"
  by (auto simp: metric_for_def metric_msg_def ActorMessage_create_def empty_payload_def)

lemma metric_not_turn: "\<not> metric_for u (turn_msg v t)"
  by (simp add: metric_for_def turn_msg_def ActorMessage_create_def)

lemma rate_of_msg: "rate_of (metric_msg v r) = r"
  by (simp add: rate_of_def metric_msg_def ActorMessage_create_def empty_payload_def)

lemma rates_for_map:
  "rates_for uid (map (\<lambda>k. (t, metric_msg uid (f k))) ks) = map f ks"
  by (induction ks) (simp_all add: rates_for_def metric_for_msg rate_of_msg)

theorem C5_rolling_history_witness:
  "history_of (snd (UserSessionActor_handle_message cfg_adaptive (metric_msg ''u1'' (1/2)) actor_with_u1)) ''u1''
     = Some [9/10, 1/10, 1/10, 1/10, 1/10, 1/10, 1/2]
   \<and> length (rates_for ''u1'' metrics25) = 25
   \<and> history_of (process_all cfg_adaptive metrics25 actor_with_u1) ''u1''
     = Some (map (\<lambda>k. of_nat k / 100) [6..<26])
   \<and> UserSessionActor_handle_message cfg_adaptive (metric_msg ''u9'' (1/2)) actor_with_u1
     = (Inr (), actor_with_u1)
   \<and> history_of (process_all cfg_adaptive [(''t1'', turn_msg ''u1'' ''hello'')]
        (UserSessionActor_init True ''t0'')) ''u1'' = Some []"
proof -
  have h0: "history_of actor_with_u1 ''u1'' = Some [9/10, 1/10, 1/10, 1/10, 1/10, 1/10]"
    by (simp add: history_of_def actor_with_u1_def session_low_def UserSession_init_def)
  have r: "rates_for ''u1'' metrics25 = map (\<lambda>k. of_nat k / 100) [1..<26]"
    unfolding metrics25_def by (rule rates_for_map)
  have l: "length (rates_for ''u1'' metrics25) = 25" by (simp add: r)
  have d: "last_n 20 (map (\<lambda>k. (of_nat k / 100 :: rat)) [1..<26]) = map (\<lambda>k. of_nat k / 100) [6..<26]"
    by (simp add: last_n_def drop_map)
  have n9: "sessions actor_with_u1 ''u9'' = None"
    by (simp add: actor_with_u1_def)
  have e: "history_of ((UserSessionActor_init True ''t0'')\<lparr> clock := ''t1'' \<rparr>) ''u1'' = None"
    by (simp add: history_of_def UserSessionActor_init_def)
  have p: "process_all cfg_adaptive [(''t1'', turn_msg ''u1'' ''hello'')] (UserSessionActor_init True ''t0'')
             = snd (UserSessionActor_handle_message cfg_adaptive (turn_msg ''u1'' ''hello'')
                 ((UserSessionActor_init True ''t0'')\<lparr> clock := ''t1'' \<rparr>))"
    by (simp add: process_all_def)
  have f: "history_of (process_all cfg_adaptive [(''t1'', turn_msg ''u1'' ''hello'')]
        (UserSessionActor_init True ''t0'')) ''u1'' = Some []"
    unfolding p step_history e by (simp add: is_turn_msg metric_not_turn)
  from C5_rolling_history [where uid = "''u1''" and m = "metric_msg ''u1'' (1/2)"
        and a = actor_with_u1 and ?h0.0 = "[9/10, 1/10, 1/10, 1/10, 1/10, 1/10]"
        and cfg = cfg_adaptive and ms = metrics25 and attached = True and ?now0.0 = "''t0''"
        and u = "''u1''" and h = "[]"]
    C5_rolling_history [where uid = "''u9''" and m = "metric_msg ''u9'' (1/2)"
        and a = actor_with_u1 and ?h0.0 = "[]"
        and cfg = cfg_adaptive and ms = "[(''t1'', turn_msg ''u1'' ''hello'')]"
        and attached = True and ?now0.0 = "''t0''" and u = "''u1''" and h = "[]"]
    h0 l n9 f
  show ?thesis
    by (simp add: metric_for_msg rate_of_msg last_n_def r drop_map)
qed

subsection \<open>Turns with missing fields\<close>

lemma hum_forward:
  assumes "p_user_id (payload m) = Some uid" "p_text (payload m) = Some t"
    "p_chat_id (payload m) = Some c" "system_prompt_interval cfg \<noteq> 0"
  shows "\<exists>g a'. handle_user_message cfg m a = (Inr g, a')
           \<and> sent a' = sent a \<and> actor_system a' = actor_system a
           \<and> message_type g = GENERATE_RESPONSE
           \<and> p_user_id (payload g) = Some uid \<and> p_text (payload g) = Some t
           \<and> p_chat_id (payload g) = Some c"
proof -
  obtain s0 a1 where g: "get_or_create_session uid (p_username (payload m)) a = (s0, a1)"
    by (cases "get_or_create_session uid (p_username (payload m)) a")
  note G = goc_sessions [OF g]
  let ?s = "s0\<lparr> message_count := message_count s0 + 1, last_activity := clock a1 \<rparr>"
  from should_include_table [OF assms(4), of ?s] obtain b where
    b: "should_include_prompt cfg ?s = Inr b" by blast
  show ?thesis
    using G assms(1-3) g b
    by (simp add: handle_user_message_def Let_def append_event_def ActorMessage_create_def
        empty_payload_def)
qed

text \<open>
  Claim C9, as amended. A user turn whose payload lacks \<open>user_id\<close>, \<open>text\<close> or
  \<open>chat_id\<close> raises \<open>KeyError\<close> for the first missing key, in the order \<open>user_id\<close>,
  \<open>text\<close>, \<open>chat_id\<close>, and leaves the actor exactly as it was: no session is created
  or changed, no event is appended and nothing is sent. A turn whose payload has the three
  keys is processed whatever their values, also when the user id or the text is empty: the
  session of that id is looked up or created (a new one logs its \<open>SessionCreatedEvent\<close>),
  its counter grows by one and, for a non-zero interval and an attached actor, the handler
  returns and forwards the generation request for that user, text and chat.
\<close>

theorem C9_missing_field_fails_fast:
  assumes "message_type m = USER_MESSAGE"
  shows "(p_user_id (payload m) = None \<longrightarrow>
            UserSessionActor_handle_message cfg m a = (Inl (KeyError ''user_id''), a))
     \<and> (p_user_id (payload m) \<noteq> None \<and> p_text (payload m) = None \<longrightarrow>
            UserSessionActor_handle_message cfg m a = (Inl (KeyError ''text''), a))
     \<and> (p_user_id (payload m) \<noteq> None \<and> p_text (payload m) \<noteq> None
           \<and> p_chat_id (payload m) = None \<longrightarrow>
            UserSessionActor_handle_message cfg m a = (Inl (KeyError ''chat_id''), a))
     \<and> (p_user_id (payload m) = Some uid \<and> p_text (payload m) = Some t
           \<and> p_chat_id (payload m) = Some c \<longrightarrow>
            counter_of (snd (UserSessionActor_handle_message cfg m a)) uid
              = Some (case counter_of a uid of None \<Rightarrow> 1 | Some k \<Rightarrow> k + 1)
            \<and> session_created_count uid (event_log (snd (UserSessionActor_handle_message cfg m a)))
              = session_created_count uid (event_log a)
                  + (if counter_of a uid = None then 1 else 0)
            \<and> (system_prompt_interval cfg \<noteq> 0 \<and> actor_system a \<longrightarrow>
                  fst (UserSessionActor_handle_message cfg m a) = Inr ()
                  \<and> (\<exists>g. sent (snd (UserSessionActor_handle_message cfg m a))
                             = sent a @ [(''generation'', g)]
                         \<and> message_type g = GENERATE_RESPONSE
                         \<and> p_user_id (payload g) = Some uid \<and> p_text (payload g) = Some t
                         \<and> p_chat_id (payload g) = Some c)))"
proof (intro conjI impI)
  assume "p_user_id (payload m) = None"
  with assms show "UserSessionActor_handle_message cfg m a = (Inl (KeyError ''user_id''), a)"
    by (simp add: UserSessionActor_handle_message_def handle_user_message_def)
next
  assume "p_user_id (payload m) \<noteq> None \<and> p_text (payload m) = None"
  with assms show "UserSessionActor_handle_message cfg m a = (Inl (KeyError ''text''), a)"
    by (auto simp: UserSessionActor_handle_message_def handle_user_message_def Let_def)
next
  assume "p_user_id (payload m) \<noteq> None \<and> p_text (payload m) \<noteq> None
           \<and> p_chat_id (payload m) = None"
  with assms show "UserSessionActor_handle_message cfg m a = (Inl (KeyError ''chat_id''), a)"
    by (auto simp: UserSessionActor_handle_message_def handle_user_message_def Let_def)
next
  assume v: "p_user_id (payload m) = Some uid \<and> p_text (payload m) = Some t
           \<and> p_chat_id (payload m) = Some c"
  with assms have turn: "is_turn_of uid m" by (simp add: is_turn_of_def)
  from turn show "counter_of (snd (UserSessionActor_handle_message cfg m a)) uid
              = Some (case counter_of a uid of None \<Rightarrow> 1 | Some k \<Rightarrow> k + 1)"
    unfolding step_counter by simp
  from turn show "session_created_count uid (event_log (snd (UserSessionActor_handle_message cfg m a)))
              = session_created_count uid (event_log a)
                  + (if counter_of a uid = None then 1 else 0)"
    unfolding step_created by simp
  assume h: "system_prompt_interval cfg \<noteq> 0 \<and> actor_system a"
  from v h hum_forward [of m uid t c cfg a] obtain g a' where
    r: "handle_user_message cfg m a = (Inr g, a')" "sent a' = sent a"
      "actor_system a' = actor_system a" "message_type g = GENERATE_RESPONSE"
      "p_user_id (payload g) = Some uid" "p_text (payload g) = Some t"
      "p_chat_id (payload g) = Some c"
    by blast
  from assms r h show "fst (UserSessionActor_handle_message cfg m a) = Inr ()"
    by (simp add: UserSessionActor_handle_message_def)
  from assms r h show "\<exists>g. sent (snd (UserSessionActor_handle_message cfg m a))
                             = sent a @ [(''generation'', g)]
                         \<and> message_type g = GENERATE_RESPONSE
                         \<and> p_user_id (payload g) = Some uid \<and> p_text (payload g) = Some t
                         \<and> p_chat_id (payload g) = Some c"
    by (simp add: UserSessionActor_handle_message_def send_message_def)
qed

theorem C9_missing_field_fails_fast_witness:
  "message_type (metric_msg ''u1'' 0\<lparr> message_type := USER_MESSAGE \<rparr>) = USER_MESSAGE
   \<and> p_user_id (payload (metric_msg ''u1'' 0\<lparr> message_type := USER_MESSAGE \<rparr>)) \<noteq> None
   \<and> p_text (payload (metric_msg ''u1'' 0\<lparr> message_type := USER_MESSAGE \<rparr>)) = None
   \<and> UserSessionActor_handle_message cfg_adaptive
         (metric_msg ''u1'' 0\<lparr> message_type := USER_MESSAGE \<rparr>) actor_with_u1
       = (Inl (KeyError ''text''), actor_with_u1)
   \<and> message_type (turn_msg [] []) = USER_MESSAGE
   \<and> p_user_id (payload (turn_msg [] [])) = Some []
   \<and> p_text (payload (turn_msg [] [])) = Some (PStr [])
   \<and> p_chat_id (payload (turn_msg [] [])) = Some 7
   \<and> counter_of (snd (UserSessionActor_handle_message cfg_adaptive (turn_msg [] []) actor_with_u1)) []
       = Some 1
   \<and> fst (UserSessionActor_handle_message cfg_adaptive (turn_msg [] []) actor_with_u1) = Inr ()"
proof -
  have t: "message_type (metric_msg ''u1'' 0\<lparr> message_type := USER_MESSAGE \<rparr>) = USER_MESSAGE"
    by simp
  have n: "p_text (payload (metric_msg ''u1'' 0\<lparr> message_type := USER_MESSAGE \<rparr>)) = None"
    "p_user_id (payload (metric_msg ''u1'' 0\<lparr> message_type := USER_MESSAGE \<rparr>)) \<noteq> None"
    by (simp_all add: metric_msg_def ActorMessage_create_def empty_payload_def)
  have e: "message_type (turn_msg [] []) = USER_MESSAGE"
    "p_user_id (payload (turn_msg [] [])) = Some []"
    "p_text (payload (turn_msg [] [])) = Some (PStr [])"
    "p_chat_id (payload (turn_msg [] [])) = Some 7"
    by (simp_all add: turn_msg_def ActorMessage_create_def empty_payload_def)
  have a: "counter_of actor_with_u1 [] = None" "actor_system actor_with_u1"
    "system_prompt_interval cfg_adaptive \<noteq> 0"
    by (simp_all add: counter_of_def actor_with_u1_def UserSessionActor_init_def cfg_adaptive_def)
  from C9_missing_field_fails_fast [OF t, of cfg_adaptive actor_with_u1]
    C9_missing_field_fails_fast [OF e(1), of cfg_adaptive actor_with_u1 "[]" "PStr []" 7]
    t n e a
  show ?thesis
    by simp
qed

text \<open>
  The claim as stated fails for an empty but present \<open>user_id\<close> (and likewise for an
  empty text): the turn is processed like any other, a session is created under the empty
  key and its \<open>SessionCreatedEvent\<close> is logged.
\<close>

theorem C9_empty_fields_counterexample:
  "p_user_id (payload (turn_msg [] ''hi'')) = Some []
   \<and> counter_of (UserSessionActor_init True ''t0'') [] = None
   \<and> counter_of (snd (UserSessionActor_handle_message cfg_adaptive (turn_msg [] ''hi'')
        (UserSessionActor_init True ''t0''))) [] = Some 1
   \<and> session_created_count [] (event_log (UserSessionActor_init True ''t0'')) = 0
   \<and> session_created_count [] (event_log (snd (UserSessionActor_handle_message cfg_adaptive
        (turn_msg [] ''hi'') (UserSessionActor_init True ''t0'')))) = 1
   \<and> p_text (payload (turn_msg ''u2'' [])) = Some (PStr [])
   \<and> counter_of (snd (UserSessionActor_handle_message cfg_adaptive (turn_msg ''u2'' [])
        (UserSessionActor_init True ''t0''))) ''u2'' = Some 1"
proof -
  have p: "p_user_id (payload (turn_msg [] ''hi'')) = Some []"
          "p_text (payload (turn_msg ''u2'' [])) = Some (PStr [])"
    by (simp_all add: turn_msg_def ActorMessage_create_def empty_payload_def)
  have i: "counter_of (UserSessionActor_init True ''t0'') u = None"
          "session_created_count [] (event_log (UserSessionActor_init True ''t0'')) = 0" for u
    by (simp_all add: counter_of_def UserSessionActor_init_def session_created_count_def)
  show ?thesis
    unfolding step_counter step_created by (simp add: is_turn_msg p i)
qed

subsection \<open>Cache metrics after a backend call\<close>

lemma collect_chunks_usage:
  "collect_chunks chunks full hit miss = Inr (text, hit', miss') \<Longrightarrow>
     (hit', miss') = (case rev (List.map_filter usage chunks) of
                        [] \<Rightarrow> (hit, miss)
                      | u # _ \<Rightarrow> (case prompt_cache_hit_tokens u of None \<Rightarrow> 0 | Some h \<Rightarrow> h,
                                  case prompt_cache_miss_tokens u of None \<Rightarrow> 0 | Some m \<Rightarrow> m))"
proof (induction chunks arbitrary: full hit miss)
  case Nil
  then show ?case by (simp add: List.map_filter_simps)
next
  case (Cons c cs)
  from Cons.prems obtain d ds where ch: "choices c = d # ds"
    by (cases "choices c") auto
  let ?full = "(case d of None \<Rightarrow> full | Some t \<Rightarrow> if t = [] then full else full @ t)"
  show ?case
  proof (cases "usage c")
    case None
    with Cons.prems ch have "collect_chunks cs ?full hit miss = Inr (text, hit', miss')"
      by (simp add: Let_def)
    from Cons.IH [OF this] None show ?thesis
      by (simp add: List.map_filter_simps)
  next
    case (Some u)
    let ?h = "(case prompt_cache_hit_tokens u of None \<Rightarrow> 0 | Some h \<Rightarrow> h)"
    let ?m = "(case prompt_cache_miss_tokens u of None \<Rightarrow> 0 | Some m \<Rightarrow> m)"
    from Cons.prems ch Some have "collect_chunks cs ?full ?h ?m = Inr (text, hit', miss')"
      by (simp add: Let_def)
    from Cons.IH [OF this] Some show ?thesis
      by (cases "rev (List.map_filter usage cs)") (simp_all add: List.map_filter_simps)
  qed
qed

lemma log_cache_metrics_total:
  assumes "CACHE_HIT_LOG_INTERVAL cfg \<noteq> 0"
  shows "log_cache_metrics cfg hit miss a =
           (Inr (),
            if 0 < hit + miss then
              a\<lparr> generation_count := generation_count a + 1,
                 total_cache_hits := float_add (total_cache_hits a)
                                       (float_div (of_int hit) (of_int (hit + miss))),
                 event_log := event_log a
                   @ [cache_hit_metric_event hit miss
                        (float_div (of_int hit) (of_int (hit + miss))) (clock a)] \<rparr>
            else a\<lparr> generation_count := generation_count a + 1 \<rparr>)"
  using assms
  by (simp add: log_cache_metrics_def Let_def py_mod_def append_event_def BaseEvent_create_def
      cache_hit_metric_event_def)

lemma collect_chunks_total:
  "\<forall>c \<in> set chunks. choices c \<noteq> [] \<Longrightarrow>
     \<exists>text h m. collect_chunks chunks full hit miss = Inr (text, h, m)"
proof (induction chunks arbitrary: full hit miss)
  case Nil
  show ?case by simp
next
  case (Cons c cs)
  then obtain d ds where ch: "choices c = d # ds"
    by (cases "choices c") auto
  from Cons.prems have "\<forall>c \<in> set cs. choices c \<noteq> []" by simp
  from Cons.IH [OF this] ch show ?case
    by (simp add: Let_def)
qed

lemma log_cache_metrics_frame:
  "api_calls (snd (log_cache_metrics cfg hit miss a)) = api_calls a
   \<and> sent (snd (log_cache_metrics cfg hit miss a)) = sent a
   \<and> clock (snd (log_cache_metrics cfg hit miss a)) = clock a
   \<and> actor_system (snd (log_cache_metrics cfg hit miss a)) = actor_system a
   \<and> actor_id (snd (log_cache_metrics cfg hit miss a)) = actor_id a
   \<and> json_failures (snd (log_cache_metrics cfg hit miss a)) = json_failures a"
  by (auto simp: log_cache_metrics_def Let_def py_mod_def append_event_def)

lemma snd_call_api:
  "snd (call_api ev cfg messages use_json a) =
     (case backend ev (length (api_calls a)) of
        Raises m \<Rightarrow> a\<lparr> api_calls := api_calls a @ [(messages, use_json)] \<rparr>
      | Stream chunks \<Rightarrow>
          (case collect_chunks chunks [] 0 0 of
             Inl e \<Rightarrow> a\<lparr> api_calls := api_calls a @ [(messages, use_json)] \<rparr>
           | Inr (full_response, hit, miss) \<Rightarrow>
               snd (log_cache_metrics cfg hit miss
                      (a\<lparr> api_calls := api_calls a @ [(messages, use_json)] \<rparr>))))"
  by (simp add: call_api_def Let_def split: api_outcome.splits sum.splits prod.splits)

lemma call_api_frame:
  "api_calls (snd (call_api ev cfg messages use_json a)) = api_calls a @ [(messages, use_json)]
   \<and> sent (snd (call_api ev cfg messages use_json a)) = sent a
   \<and> clock (snd (call_api ev cfg messages use_json a)) = clock a
   \<and> actor_system (snd (call_api ev cfg messages use_json a)) = actor_system a
   \<and> actor_id (snd (call_api ev cfg messages use_json a)) = actor_id a
   \<and> json_failures (snd (call_api ev cfg messages use_json a)) = json_failures a"
  unfolding snd_call_api
  by (simp add: log_cache_metrics_frame split: api_outcome.splits sum.splits prod.splits)

text \<open>
  Claim C6. A backend invocation that succeeds (the call is let through, the stream ends
  and every chunk has a choice) makes \<open>_call_api\<close> return, and with \<open>hit\<close> and \<open>miss\<close> the
  counts of the stream's usage record: the generation counter has grown by one; if
  \<open>hit + miss > 0\<close>, exactly one event was appended, a \<open>CacheHitMetricEvent\<close> on stream
  \<open>metrics\<close> carrying \<open>hit\<close>, \<open>miss\<close> and the rate, which is the float quotient
  \<open>hit / (hit + miss)\<close> (for 30 and 70 the float \<open>0.3\<close>); otherwise no event was appended.
  The metrics log interval is not zero, as the configuration requires.
\<close>

theorem C6_cache_hit_metric:
  assumes "backend ev (length (api_calls a)) = Stream chunks"
    and "\<forall>c \<in> set chunks. choices c \<noteq> []"
    and "stream_usage chunks = (hit, miss)"
    and "CACHE_HIT_LOG_INTERVAL cfg \<noteq> 0"
  shows "\<exists>text a'. call_api ev cfg messages use_json a = (Inr text, a')
           \<and> generation_count a' = generation_count a + 1
           \<and> (0 < hit + miss \<longrightarrow>
                event_log a' = event_log a
                  @ [\<lparr> stream_id = ''metrics'', event_type = ''CacheHitMetricEvent'',
                       event_timestamp = clock a,
                       data = CacheHitMetricData hit miss
                                (float_div (of_int hit) (of_int (hit + miss))) (clock a),
                       version = 0, correlation_id = None \<rparr>])
           \<and> (hit + miss \<le> 0 \<longrightarrow> event_log a' = event_log a)"
proof -
  from collect_chunks_total [OF assms(2), of "[]" 0 0] obtain reply h m where
    c: "collect_chunks chunks [] 0 0 = Inr (reply, h, m)" by blast
  from collect_chunks_usage [OF c] assms(3) have u: "h = hit" "m = miss"
    by (simp_all add: stream_usage_def)
  show ?thesis
    using assms(1) c u log_cache_metrics_total [OF assms(4), of hit miss]
    by (simp add: call_api_def Let_def cache_hit_metric_event_def)
qed

lemma collect_text_chunk:
  "collect_chunks (text_chunk t # cs) full hit miss = collect_chunks cs (full @ t) hit miss"
  by (simp add: text_chunk_def)

lemma collect_usage_chunk:
  "collect_chunks [usage_chunk h m] full hit miss = Inr (full, h, m)"
  by (simp add: usage_chunk_def)

theorem C6_cache_hit_metric_witness:
  "backend (env_stream [''ok'']) (length (api_calls (GenerationActor_init True ''t0'')))
     = Stream [text_chunk ''ok'', usage_chunk 30 70]
   \<and> stream_usage [text_chunk ''ok'', usage_chunk 30 70] = (30, 70)
   \<and> stream_usage [text_chunk ''ok'', usage_chunk 0 0] = (0, 0)
   \<and> CACHE_HIT_LOG_INTERVAL cfg_adaptive \<noteq> 0
   \<and> (\<exists>text a'. call_api (env_stream [''ok'']) cfg_adaptive [] True (GenerationActor_init True ''t0'')
                    = (Inr text, a')
          \<and> generation_count a' = 1
          \<and> event_log a'
              = [cache_hit_metric_event 30 70 (5404319552844595 / 18014398509481984) ''t0''])
   \<and> (\<exists>text a'. call_api env_no_tokens cfg_adaptive [] True (GenerationActor_init True ''t0'')
                    = (Inr text, a')
          \<and> generation_count a' = 1 \<and> event_log a' = [])"
proof -
  have b1: "backend (env_stream [''ok'']) (length (api_calls (GenerationActor_init True ''t0'')))
     = Stream [text_chunk ''ok'', usage_chunk 30 70]"
    by (simp add: env_stream_def)
  have b2: "backend env_no_tokens (length (api_calls (GenerationActor_init True ''t0'')))
     = Stream [text_chunk ''ok'', usage_chunk 0 0]"
    by (simp add: env_no_tokens_def)
  have ch: "\<forall>c \<in> set [text_chunk ''ok'', usage_chunk h m]. choices c \<noteq> []" for h m
    by (simp add: text_chunk_def usage_chunk_def)
  have u: "stream_usage [text_chunk ''ok'', usage_chunk h m] = (h, m)" for h m
    by (simp add: stream_usage_def List.map_filter_simps text_chunk_def usage_chunk_def)
  have i: "CACHE_HIT_LOG_INTERVAL cfg_adaptive \<noteq> 0"
    by (simp add: cfg_adaptive_def)
  have z: "generation_count (GenerationActor_init True ''t0'') = 0"
    "event_log (GenerationActor_init True ''t0'') = []"
    "clock (GenerationActor_init True ''t0'') = ''t0''"
    by (simp_all add: GenerationActor_init_def)
  from C6_cache_hit_metric [OF b1 ch u i, of "[]" True]
    C6_cache_hit_metric [OF b2 ch u i, of "[]" True]
    b1 u i
  show ?thesis
    by (simp add: z d_30_100 cache_hit_metric_event_def)
qed

subsection \<open>What handling a generation request changes\<close>

lemma log_json_failure_frame:
  "api_calls (log_json_failure uid e a) = api_calls a
   \<and> sent (log_json_failure uid e a) = sent a
   \<and> clock (log_json_failure uid e a) = clock a
   \<and> actor_system (log_json_failure uid e a) = actor_system a
   \<and> actor_id (log_json_failure uid e a) = actor_id a"
  by (simp add: log_json_failure_def append_event_def)

lemma generate_response_frame:
  "sent (snd (generate_response ev cfg text uid inc a)) = sent a
   \<and> actor_system (snd (generate_response ev cfg text uid inc a)) = actor_system a
   \<and> clock (snd (generate_response ev cfg text uid inc a)) = clock a
   \<and> actor_id (snd (generate_response ev cfg text uid inc a)) = actor_id a
   \<and> (\<exists>rest. api_calls (snd (generate_response ev cfg text uid inc a))
                = api_calls a @ (format_context cfg text inc False, use_json_mode cfg) # rest
              \<and> (rest = [] \<or> rest = [(format_context cfg text inc True, False)]))"
proof -
  obtain r1 a1 where c1:
    "call_api ev cfg (format_context cfg text inc False) (use_json_mode cfg) a = (r1, a1)"
    by (cases "call_api ev cfg (format_context cfg text inc False) (use_json_mode cfg) a")
  from call_api_frame [of ev cfg "format_context cfg text inc False" "use_json_mode cfg" a] c1
  have f1: "api_calls a1 = api_calls a @ [(format_context cfg text inc False, use_json_mode cfg)]"
    "sent a1 = sent a" "clock a1 = clock a" "actor_system a1 = actor_system a"
    "actor_id a1 = actor_id a"
    by simp_all
  have f2: "api_calls (snd (call_api ev cfg ms False (log_json_failure uid m (a1\<lparr> json_failures := k \<rparr>))))
              = api_calls a1 @ [(ms, False)]
            \<and> sent (snd (call_api ev cfg ms False (log_json_failure uid m (a1\<lparr> json_failures := k \<rparr>)))) = sent a1
            \<and> clock (snd (call_api ev cfg ms False (log_json_failure uid m (a1\<lparr> json_failures := k \<rparr>)))) = clock a1
            \<and> actor_system (snd (call_api ev cfg ms False (log_json_failure uid m (a1\<lparr> json_failures := k \<rparr>)))) = actor_system a1
            \<and> actor_id (snd (call_api ev cfg ms False (log_json_failure uid m (a1\<lparr> json_failures := k \<rparr>)))) = actor_id a1"
    for ms m k
    using call_api_frame [of ev cfg ms False "log_json_failure uid m (a1\<lparr> json_failures := k \<rparr>)"]
    by (simp add: log_json_failure_frame)
  show ?thesis
  proof (cases r1)
    case (Inl e)
    with c1 f1 show ?thesis by (simp add: generate_response_def Let_def)
  next
    case (Inr response)
    show ?thesis
    proof (cases "use_json_mode cfg")
      case False
      with c1 f1 Inr show ?thesis by (simp add: generate_response_def Let_def)
    next
      case True
      show ?thesis
      proof (cases "extract_from_json ev response uid")
        case (Inr v)
        with c1 f1 \<open>r1 = Inr response\<close> True show ?thesis
          by (simp add: generate_response_def Let_def)
      next
        case (Inl e)
        show ?thesis
        proof (cases "\<exists>m. e = JSONDecodeError m")
          case False
          with c1 f1 \<open>r1 = Inr response\<close> True Inl show ?thesis
            by (cases e) (simp_all add: generate_response_def Let_def)
        next
          case True
          then obtain m where m: "e = JSONDecodeError m" by blast
          show ?thesis
          proof (cases "json_fallback_enabled cfg")
            case False
            with c1 f1 \<open>r1 = Inr response\<close> \<open>use_json_mode cfg\<close> Inl m show ?thesis
              by (simp add: generate_response_def Let_def log_json_failure_frame)
          next
            case fb: True
            obtain r2 a2 where c2: "call_api ev cfg (format_context cfg text inc True) False
                (log_json_failure uid m (a1\<lparr> json_failures := json_failures a1 + 1 \<rparr>)) = (r2, a2)"
              by (cases "call_api ev cfg (format_context cfg text inc True) False
                (log_json_failure uid m (a1\<lparr> json_failures := json_failures a1 + 1 \<rparr>))")
            from f2 [of "format_context cfg text inc True" m "json_failures a1 + 1"] c2
            have g: "api_calls a2 = api_calls a1 @ [(format_context cfg text inc True, False)]"
              "sent a2 = sent a1" "clock a2 = clock a1" "actor_system a2 = actor_system a1"
              "actor_id a2 = actor_id a1" by simp_all
            from c1 c2 f1 g \<open>r1 = Inr response\<close> \<open>use_json_mode cfg\<close> Inl m fb show ?thesis
              by (cases r2) (simp_all add: generate_response_def Let_def)
          qed
        qed
      qed
    qed
  qed
qed

lemma handle_valid:
  assumes "message_type m = GENERATE_RESPONSE" "p_user_id (payload m) = Some uid"
    "p_chat_id (payload m) = Some c" "p_text (payload m) = Some t"
    "generate_response ev cfg t uid (include_prompt_of m) a = (r, a1)"
  shows "GenerationActor_handle_message ev cfg m a =
           (Inr (), send_message ''telegram''
              (case r of
                 Inl e \<Rightarrow> error_msg a1 uid c e
               | Inr v \<Rightarrow> (case slice_error v of
                             Some e \<Rightarrow> error_msg a1 uid c e
                           | None \<Rightarrow> bot_response_msg a1 uid c v)) a1)"
  using assms
  by (simp add: GenerationActor_handle_message_def include_prompt_of_def Let_def
      split: sum.splits option.splits)

lemma handle_sent:
  "\<exists>new. sent (snd (GenerationActor_handle_message ev cfg m a)) = sent a @ new
         \<and> (\<forall>(target, msg) \<in> set new.
               target = ''telegram'' \<and> (message_type msg = BOT_RESPONSE \<or> message_type msg = ERROR))"
proof (cases "message_type m = GENERATE_RESPONSE \<and> p_user_id (payload m) \<noteq> None
                \<and> p_chat_id (payload m) \<noteq> None \<and> p_text (payload m) \<noteq> None")
  case False
  then have "snd (GenerationActor_handle_message ev cfg m a) = a"
    by (auto simp: GenerationActor_handle_message_def split: option.splits)
  then show ?thesis by simp
next
  case True
  then obtain uid c t where v: "message_type m = GENERATE_RESPONSE" "p_user_id (payload m) = Some uid"
    "p_chat_id (payload m) = Some c" "p_text (payload m) = Some t" by auto
  obtain r a1 where g: "generate_response ev cfg t uid (include_prompt_of m) a = (r, a1)"
    by (cases "generate_response ev cfg t uid (include_prompt_of m) a")
  from generate_response_frame [of ev cfg t uid "include_prompt_of m" a] g
  have s: "sent a1 = sent a" by simp
  show ?thesis
    unfolding handle_valid [OF v g]
    using s
    by (auto simp: send_message_def error_msg_def bot_response_msg_def ActorMessage_create_def
        split: sum.splits option.splits)
qed

text \<open>
  No message of the generation actor carries a cache-hit rate: a backend call sends no
  message at all, and handling any message sends nothing but \<open>bot_response\<close> and
  \<open>error\<close> messages addressed to the transport actor.
\<close>

lemma no_metric_forwarding:
  "sent (snd (call_api ev cfg messages use_json a)) = sent a
   \<and> (\<exists>new. sent (snd (GenerationActor_handle_message ev cfg m a)) = sent a @ new
         \<and> (\<forall>(target, msg) \<in> set new.
               target = ''telegram'' \<and> (message_type msg = BOT_RESPONSE \<or> message_type msg = ERROR)))"
  using call_api_frame [of ev cfg messages use_json a] handle_sent [of ev cfg m a]
  by blast

subsection \<open>The boundary of the message handler\<close>

text \<open>
  Claim C8, as amended. For a \<open>generate_response\<close> message that carries \<open>user_id\<close>,
  \<open>chat_id\<close> and \<open>text\<close>, handled by an actor attached to an actor system, the handler
  returns without raising. When the generation raised (the backend call was rejected or
  raised, or a decode failure was not resolved to text), it sends exactly one message, to
  the transport actor: an \<open>error\<close> message with the user id, the chat id, the description
  of the exception and \<open>error_type\<close> \<open>generation_error\<close>. When the generation returned a
  final text, it sends exactly one message, to the transport actor: a \<open>bot_response\<close>
  with the user id, the chat id and that text.
\<close>

theorem C8_handler_boundary:
  assumes "message_type m = GENERATE_RESPONSE" "p_user_id (payload m) = Some uid"
    "p_chat_id (payload m) = Some c" "p_text (payload m) = Some t" "actor_system a"
  shows "fst (GenerationActor_handle_message ev cfg m a) = Inr ()
     \<and> (case fst (generate_response ev cfg t uid (include_prompt_of m) a) of
           Inl e \<Rightarrow>
             (\<exists>out. sent (snd (GenerationActor_handle_message ev cfg m a))
                       = sent a @ [(''telegram'', out)]
                \<and> message_type out = ERROR
                \<and> p_user_id (payload out) = Some uid \<and> p_chat_id (payload out) = Some c
                \<and> p_error (payload out) = Some (str_exn e)
                \<and> p_error_type (payload out) = Some ''generation_error'')
         | Inr v \<Rightarrow>
             (\<forall>final. v = PStr final \<longrightarrow>
                (\<exists>out. sent (snd (GenerationActor_handle_message ev cfg m a))
                          = sent a @ [(''telegram'', out)]
                   \<and> message_type out = BOT_RESPONSE
                   \<and> p_user_id (payload out) = Some uid \<and> p_chat_id (payload out) = Some c
                   \<and> p_text (payload out) = Some (PStr final))))"
proof -
  obtain r a1 where g: "generate_response ev cfg t uid (include_prompt_of m) a = (r, a1)"
    by (cases "generate_response ev cfg t uid (include_prompt_of m) a")
  from generate_response_frame [of ev cfg t uid "include_prompt_of m" a] g assms(5)
  have s: "sent a1 = sent a" "actor_system a1" by simp_all
  show ?thesis
    unfolding handle_valid [OF assms(1-4) g] g
    using s
    by (auto simp: send_message_def error_msg_def bot_response_msg_def ActorMessage_create_def
        empty_payload_def split: sum.splits option.splits)
qed

subsection \<open>The default of the prompt flag\<close>

text \<open>
  Claim C10. A message without the \<open>include_prompt\<close> key is handled exactly like the
  same message with \<open>include_prompt = True\<close>; and when it is a \<open>generate_response\<close>
  message with its required keys, the context handed to the backend is the system prompt
  (the structured variant under JSON mode, else the plain one) followed by the user's
  text, and so is the context of the fallback call if there is one.
\<close>

theorem C10_include_prompt_default:
  assumes "p_include_prompt (payload m) = None"
  shows "GenerationActor_handle_message ev cfg m a
           = GenerationActor_handle_message ev cfg
               (m\<lparr> payload := (payload m)\<lparr> p_include_prompt := Some True \<rparr> \<rparr>) a
     \<and> (message_type m = GENERATE_RESPONSE \<and> p_user_id (payload m) \<noteq> None
          \<and> p_chat_id (payload m) \<noteq> None \<and> p_text (payload m) = Some t \<longrightarrow>
          (\<exists>rest. api_calls (snd (GenerationActor_handle_message ev cfg m a))
                    = api_calls a
                      @ ([\<lparr> role = ''system'',
                            content = PStr (if use_json_mode cfg then prompt_json cfg
                                            else prompt_normal cfg) \<rparr>,
                          \<lparr> role = ''user'', content = t \<rparr>], use_json_mode cfg) # rest
                  \<and> (rest = []
                       \<or> rest = [([\<lparr> role = ''system'', content = PStr (prompt_normal cfg) \<rparr>,
                                    \<lparr> role = ''user'', content = t \<rparr>], False)])))"
proof (intro conjI impI)
  show "GenerationActor_handle_message ev cfg m a
           = GenerationActor_handle_message ev cfg
               (m\<lparr> payload := (payload m)\<lparr> p_include_prompt := Some True \<rparr> \<rparr>) a"
    using assms by (simp add: GenerationActor_handle_message_def Let_def split: option.splits)
next
  assume h: "message_type m = GENERATE_RESPONSE \<and> p_user_id (payload m) \<noteq> None
          \<and> p_chat_id (payload m) \<noteq> None \<and> p_text (payload m) = Some t"
  then obtain uid c where v: "message_type m = GENERATE_RESPONSE" "p_user_id (payload m) = Some uid"
    "p_chat_id (payload m) = Some c" "p_text (payload m) = Some t" by auto
  have i: "include_prompt_of m = True" using assms by (simp add: include_prompt_of_def)
  obtain r a1 where g: "generate_response ev cfg t uid (include_prompt_of m) a = (r, a1)"
    by (cases "generate_response ev cfg t uid (include_prompt_of m) a")
  from generate_response_frame [of ev cfg t uid "include_prompt_of m" a] g
  obtain rest where c: "api_calls a1
      = api_calls a @ (format_context cfg t True False, use_json_mode cfg) # rest"
    and r: "rest = [] \<or> rest = [(format_context cfg t True True, False)]"
    unfolding i by auto
  have "api_calls (snd (GenerationActor_handle_message ev cfg m a)) = api_calls a1"
    unfolding handle_valid [OF v g] by (simp add: send_message_def)
  with c r show "\<exists>rest. api_calls (snd (GenerationActor_handle_message ev cfg m a))
                    = api_calls a
                      @ ([\<lparr> role = ''system'',
                            content = PStr (if use_json_mode cfg then prompt_json cfg
                                            else prompt_normal cfg) \<rparr>,
                          \<lparr> role = ''user'', content = t \<rparr>], use_json_mode cfg) # rest
                  \<and> (rest = []
                       \<or> rest = [([\<lparr> role = ''system'', content = PStr (prompt_normal cfg) \<rparr>,
                                    \<lparr> role = ''user'', content = t \<rparr>], False)])"
    by (auto simp: format_context_def Let_def)
qed

subsection \<open>Evaluation on concrete backends\<close>

lemma collect_text_chunks:
  "collect_chunks (map text_chunk parts @ [usage_chunk h m]) full hit miss
     = Inr (full @ concat parts, h, m)"
  by (induction parts arbitrary: full)
     (simp_all add: collect_text_chunk collect_usage_chunk del: collect_chunks.simps)

lemma call_api_stream:
  assumes "CACHE_HIT_LOG_INTERVAL cfg \<noteq> 0"
  shows "call_api (env_stream parts) cfg messages use_json a =
           (Inr (concat parts),
            a\<lparr> api_calls := api_calls a @ [(messages, use_json)],
               generation_count := generation_count a + 1,
               total_cache_hits := float_add (total_cache_hits a) (float_div 30 100),
               event_log := event_log a @ [cache_hit_metric_event 30 70 (float_div 30 100) (clock a)] \<rparr>)"
  using assms
  by (simp add: call_api_def env_stream_def collect_text_chunks log_cache_metrics_def Let_def
      py_mod_def append_event_def BaseEvent_create_def cache_hit_metric_event_def)

lemma interval_adaptive:
  "CACHE_HIT_LOG_INTERVAL cfg_adaptive \<noteq> 0" "CACHE_HIT_LOG_INTERVAL cfg_nofallback \<noteq> 0"
  "use_json_mode cfg_adaptive" "use_json_mode cfg_nofallback"
  "json_fallback_enabled cfg_adaptive" "\<not> json_fallback_enabled cfg_nofallback"
  by (simp_all add: cfg_adaptive_def cfg_nofallback_def)

lemma gen_msg_fields:
  "message_type gen_msg = GENERATE_RESPONSE" "p_user_id (payload gen_msg) = Some ''u1''"
  "p_chat_id (payload gen_msg) = Some 7" "p_text (payload gen_msg) = Some (PStr ''hello'')"
  "include_prompt_of gen_msg = False"
  by (simp_all add: gen_msg_def ActorMessage_create_def empty_payload_def include_prompt_of_def)

lemma extract_samples:
  \<open>extract_from_json (env_stream parts) ''{"response": "hi"}'' uid = Inr (PStr ''hi'')\<close>
  \<open>extract_from_json (env_stream parts) ''{"foo": 1}'' uid
     = Inl (ValueError ''JSON doesn't contain 'response' field'')\<close>
  \<open>extract_from_json (env_stream parts) ''not json'' uid
     = Inl (JSONDecodeError ''Expecting value: line 1 column 1 (char 0)'')\<close>
  by (simp_all add: extract_from_json_def env_stream_def json_loads_sample_def)

lemma generate_no_field:
  assumes "CACHE_HIT_LOG_INTERVAL cfg \<noteq> 0" "use_json_mode cfg"
  shows \<open>generate_response (env_stream [''{"foo": 1}'']) cfg text uid inc a =
           (Inl (ValueError ''JSON doesn't contain 'response' field''),
            a\<lparr> api_calls := api_calls a @ [(format_context cfg text inc False, True)],
               generation_count := generation_count a + 1,
               total_cache_hits := float_add (total_cache_hits a) (float_div 30 100),
               event_log := event_log a @ [cache_hit_metric_event 30 70 (float_div 30 100) (clock a)] \<rparr>)\<close>
  using assms
  by (simp add: generate_response_def call_api_stream extract_samples Let_def)

lemma generate_not_json:
  assumes "CACHE_HIT_LOG_INTERVAL cfg \<noteq> 0" "use_json_mode cfg"
  shows "generate_response (env_stream [''not json'']) cfg text uid inc a =
           (Inr (PStr ''not json''),
            if json_fallback_enabled cfg then
              a\<lparr> api_calls := api_calls a @ [(format_context cfg text inc False, True),
                                              (format_context cfg text inc True, False)],
                 generation_count := generation_count a + 2,
                 total_cache_hits := float_add (float_add (total_cache_hits a) (float_div 30 100))
                                       (float_div 30 100),
                 json_failures := json_failures a + 1,
                 event_log := event_log a
                   @ [cache_hit_metric_event 30 70 (float_div 30 100) (clock a),
                      BaseEvent_create (''user_'' @ uid) ''JSONModeFailureEvent''
                        (JSONModeFailureData uid ''Expecting value: line 1 column 1 (char 0)'' (clock a))
                        (clock a),
                      cache_hit_metric_event 30 70 (float_div 30 100) (clock a)] \<rparr>
            else
              a\<lparr> api_calls := api_calls a @ [(format_context cfg text inc False, True)],
                 generation_count := generation_count a + 1,
                 total_cache_hits := float_add (total_cache_hits a) (float_div 30 100),
                 json_failures := json_failures a + 1,
                 event_log := event_log a
                   @ [cache_hit_metric_event 30 70 (float_div 30 100) (clock a),
                      BaseEvent_create (''user_'' @ uid) ''JSONModeFailureEvent''
                        (JSONModeFailureData uid ''Expecting value: line 1 column 1 (char 0)'' (clock a))
                        (clock a)] \<rparr>)"
  using assms
  by (simp add: generate_response_def call_api_stream extract_samples Let_def
      log_json_failure_def append_event_def)

lemma generate_hi:
  assumes "CACHE_HIT_LOG_INTERVAL cfg \<noteq> 0" "use_json_mode cfg"
  shows \<open>generate_response (env_stream [''{"response": '', ''"hi"}'']) cfg text uid inc a =
           (Inr (PStr ''hi''),
            a\<lparr> api_calls := api_calls a @ [(format_context cfg text inc False, True)],
               generation_count := generation_count a + 1,
               total_cache_hits := float_add (total_cache_hits a) (float_div 30 100),
               event_log := event_log a @ [cache_hit_metric_event 30 70 (float_div 30 100) (clock a)] \<rparr>)\<close>
  using assms
  by (simp add: generate_response_def call_api_stream extract_samples Let_def)

lemma generate_down:
  "generate_response env_down cfg text uid inc a =
     (Inl (BackendError ''circuit breaker is open''),
      a\<lparr> api_calls := api_calls a @ [(format_context cfg text inc False, use_json_mode cfg)] \<rparr>)"
  by (simp add: generate_response_def call_api_def env_down_def Let_def)

subsection \<open>Decode failures under JSON mode\<close>

lemma log_cache_metrics_json_events:
  "json_failure_events (snd (log_cache_metrics cfg hit miss a)) = json_failure_events a"
  by (simp add: log_cache_metrics_def Let_def py_mod_def append_event_def json_failure_events_def
      BaseEvent_create_def)

lemma call_api_json_events:
  "json_failure_events (snd (call_api ev cfg messages use_json a)) = json_failure_events a"
proof -
  have "json_failure_events (a\<lparr> api_calls := cs \<rparr>) = json_failure_events a" for cs
    by (simp add: json_failure_events_def)
  then show ?thesis
    unfolding snd_call_api
    by (simp add: log_cache_metrics_json_events split: api_outcome.splits sum.splits prod.splits)
qed

text \<open>
  In general: when the first call returns a text that \<open>json.loads\<close> rejects, exactly
  one \<open>JSONModeFailureEvent\<close> is logged; with the fallback enabled exactly one more call
  is made, without JSON mode and with the plain prompt variant, and its text is the
  result unparsed; with the fallback disabled the raw text of the first call is the
  result.
\<close>

lemma parse_failure_path:
  assumes "use_json_mode cfg"
    and "call_api ev cfg (format_context cfg text inc False) True a = (Inr response, a1)"
    and "json_loads ev response = Inl msg"
  shows "json_failure_events (snd (generate_response ev cfg text uid inc a))
           = json_failure_events a + 1"
    and "api_calls (snd (generate_response ev cfg text uid inc a))
           = api_calls a @ (format_context cfg text inc False, True)
               # (if json_fallback_enabled cfg then [(format_context cfg text inc True, False)] else [])"
    and "\<not> json_fallback_enabled cfg \<Longrightarrow>
           fst (generate_response ev cfg text uid inc a) = Inr (PStr response)"
    and "json_fallback_enabled cfg \<Longrightarrow>
           fst (generate_response ev cfg text uid inc a)
             = map_sum id PStr (fst (call_api ev cfg (format_context cfg text inc True) False
                  (log_json_failure uid msg (a1\<lparr> json_failures := json_failures a1 + 1 \<rparr>))))"
proof -
  let ?a3 = "log_json_failure uid msg (a1\<lparr> json_failures := json_failures a1 + 1 \<rparr>)"
  have x: "extract_from_json ev response uid = Inl (JSONDecodeError msg)"
    using assms(3) by (simp add: extract_from_json_def)
  from call_api_frame [of ev cfg "format_context cfg text inc False" True a]
    call_api_json_events [of ev cfg "format_context cfg text inc False" True a] assms(2)
  have f1: "api_calls a1 = api_calls a @ [(format_context cfg text inc False, True)]"
    "json_failure_events a1 = json_failure_events a" by simp_all
  have j3: "json_failure_events ?a3 = json_failure_events a + 1" "api_calls ?a3 = api_calls a1"
    using f1 by (simp_all add: json_failure_events_def log_json_failure_def append_event_def
        BaseEvent_create_def)
  obtain r2 a2 where c2: "call_api ev cfg (format_context cfg text inc True) False ?a3 = (r2, a2)"
    by (cases "call_api ev cfg (format_context cfg text inc True) False ?a3")
  from call_api_frame [of ev cfg "format_context cfg text inc True" False ?a3]
    call_api_json_events [of ev cfg "format_context cfg text inc True" False ?a3] c2 j3
  have f2: "api_calls a2 = api_calls a1 @ [(format_context cfg text inc True, False)]"
    "json_failure_events a2 = json_failure_events a + 1" by simp_all
  have g: "generate_response ev cfg text uid inc a =
             (if json_fallback_enabled cfg then (map_sum id PStr r2, a2)
              else (Inr (PStr response), ?a3))"
    using assms(1,2) x c2 by (cases r2) (simp_all add: generate_response_def Let_def)
  show "json_failure_events (snd (generate_response ev cfg text uid inc a))
           = json_failure_events a + 1"
    unfolding g using j3 f2 by simp
  show "api_calls (snd (generate_response ev cfg text uid inc a))
           = api_calls a @ (format_context cfg text inc False, True)
               # (if json_fallback_enabled cfg then [(format_context cfg text inc True, False)] else [])"
    unfolding g using j3 f1 f2 by simp
  show "\<not> json_fallback_enabled cfg \<Longrightarrow>
           fst (generate_response ev cfg text uid inc a) = Inr (PStr response)"
    unfolding g by simp
  show "json_fallback_enabled cfg \<Longrightarrow>
           fst (generate_response ev cfg text uid inc a)
             = map_sum id PStr (fst (call_api ev cfg (format_context cfg text inc True) False ?a3))"
    unfolding g c2 by simp
qed

text \<open>
  The same path on a concrete backend: a reply that \<open>json.loads\<close> rejects logs one
  \<open>JSONModeFailureEvent\<close>; with the fallback enabled a second call is made with the plain
  prompt variant and without JSON mode, with the fallback disabled the raw text is the
  response.
\<close>

lemma parse_failure_recovered:
  "json_failure_events (after_not_json cfg_adaptive) = 1
   \<and> map snd (api_calls (after_not_json cfg_adaptive)) = [True, False]
   \<and> sent_summary (after_not_json cfg_adaptive)
       = [(''telegram'', BOT_RESPONSE, Some (PStr ''not json''), None)]
   \<and> json_failure_events (after_not_json cfg_nofallback) = 1
   \<and> map snd (api_calls (after_not_json cfg_nofallback)) = [True]
   \<and> sent_summary (after_not_json cfg_nofallback)
       = [(''telegram'', BOT_RESPONSE, Some (PStr ''not json''), None)]"
proof -
  note g1 = generate_not_json [OF interval_adaptive(1) interval_adaptive(3),
      of "PStr ''hello''" "''u1''" "include_prompt_of gen_msg" "GenerationActor_init True ''t0''"]
  note g2 = generate_not_json [OF interval_adaptive(2) interval_adaptive(4),
      of "PStr ''hello''" "''u1''" "include_prompt_of gen_msg" "GenerationActor_init True ''t0''"]
  show ?thesis
    unfolding after_not_json_def handle_valid [OF gen_msg_fields(1-4) g1]
      handle_valid [OF gen_msg_fields(1-4) g2]
    by (simp add: interval_adaptive json_failure_events_def sent_summary_def send_message_def
        GenerationActor_init_def bot_response_msg_def ActorMessage_create_def empty_payload_def
        cache_hit_metric_event_def BaseEvent_create_def)
qed

text \<open>
  Claim C2 fails on the code. Under JSON mode with the fallback enabled, a reply that
  parses to a mapping without a \<open>response\<close> field makes \<open>_extract_from_json\<close> raise
  \<open>ValueError\<close>, which \<open>except json.JSONDecodeError\<close> does not catch: no
  \<open>JSONModeFailureEvent\<close> is logged, no second backend call is made, and the request ends
  in an error message.
\<close>

theorem C2_missing_field_not_recovered:
  \<open>use_json_mode cfg_adaptive \<and> json_fallback_enabled cfg_adaptive
   \<and> json_loads (env_stream [''{"foo": 1}'']) ''{"foo": 1}'' = Inr (PDict [(''foo'', PInt 1)])
   \<and> json_failure_events (after_missing_field cfg_adaptive) = 0
   \<and> json_failures (after_missing_field cfg_adaptive) = 0
   \<and> map snd (api_calls (after_missing_field cfg_adaptive)) = [True]
   \<and> sent_summary (after_missing_field cfg_adaptive)
       = [(''telegram'', ERROR, None, Some ''JSON doesn't contain 'response' field'')]\<close>
proof -
  note g = generate_no_field [OF interval_adaptive(1) interval_adaptive(3),
      of "PStr ''hello''" "''u1''" "include_prompt_of gen_msg" "GenerationActor_init True ''t0''"]
  show ?thesis
    unfolding after_missing_field_def handle_valid [OF gen_msg_fields(1-4) g]
    by (simp add: interval_adaptive json_failure_events_def sent_summary_def send_message_def
        GenerationActor_init_def error_msg_def ActorMessage_create_def empty_payload_def
        cache_hit_metric_event_def env_stream_def json_loads_sample_def)
qed

text \<open>
  Claim C3 fails on the code, by the same uncaught \<open>ValueError\<close>: with the fallback
  disabled, the reply without a \<open>response\<close> field is not returned as raw text; the
  request fails with an error message.
\<close>

theorem C3_missing_field_fails_request:
  \<open>use_json_mode cfg_nofallback \<and> \<not> json_fallback_enabled cfg_nofallback
   \<and> json_loads (env_stream [''{"foo": 1}'']) ''{"foo": 1}'' = Inr (PDict [(''foo'', PInt 1)])
   \<and> sent_summary (after_missing_field cfg_nofallback)
       = [(''telegram'', ERROR, None, Some ''JSON doesn't contain 'response' field'')]
   \<and> json_failure_events (after_missing_field cfg_nofallback) = 0\<close>
proof -
  note g = generate_no_field [OF interval_adaptive(2) interval_adaptive(4),
      of "PStr ''hello''" "''u1''" "include_prompt_of gen_msg" "GenerationActor_init True ''t0''"]
  show ?thesis
    unfolding after_missing_field_def handle_valid [OF gen_msg_fields(1-4) g]
    by (simp add: interval_adaptive json_failure_events_def sent_summary_def send_message_def
        GenerationActor_init_def error_msg_def ActorMessage_create_def empty_payload_def
        cache_hit_metric_event_def env_stream_def json_loads_sample_def)
qed

subsection \<open>Concrete runs of the handler\<close>

lemma after_hi_gen_msg:
  "after_hi gen_msg =
     send_message ''telegram''
       (bot_response_msg
          ((GenerationActor_init True ''t0'')
             \<lparr> api_calls := [([\<lparr> role = ''user'', content = PStr ''hello'' \<rparr>], True)],
               generation_count := 1, total_cache_hits := float_add 0 (float_div 30 100),
               event_log := [cache_hit_metric_event 30 70 (float_div 30 100) ''t0''] \<rparr>)
          ''u1'' 7 (PStr ''hi''))
       ((GenerationActor_init True ''t0'')
          \<lparr> api_calls := [([\<lparr> role = ''user'', content = PStr ''hello'' \<rparr>], True)],
            generation_count := 1, total_cache_hits := float_add 0 (float_div 30 100),
            event_log := [cache_hit_metric_event 30 70 (float_div 30 100) ''t0''] \<rparr>)"
proof -
  note g = generate_hi [OF interval_adaptive(1) interval_adaptive(3),
      of "PStr ''hello''" "''u1''" "include_prompt_of gen_msg" "GenerationActor_init True ''t0''"]
  show ?thesis
    unfolding after_hi_def handle_valid [OF gen_msg_fields(1-4) g]
    by (simp add: gen_msg_fields format_context_def GenerationActor_init_def)
qed

lemma sent_after_hi:
  "sent_summary (after_hi gen_msg) = [(''telegram'', BOT_RESPONSE, Some (PStr ''hi''), None)]"
  unfolding after_hi_gen_msg
  by (simp add: sent_summary_def send_message_def GenerationActor_init_def bot_response_msg_def
      ActorMessage_create_def empty_payload_def)

text \<open>
  Claim C7 fails on the code. After a successful call whose usage record has 30 hits and
  70 misses, the rate is computed and recorded in the \<open>CacheHitMetricEvent\<close>, but the
  only message sent is the \<open>bot_response\<close> to the transport actor: no cache-metric
  message for the user goes to the session actor, whose handler for such messages and
  whose adaptive policy wait for it.
\<close>

theorem C7_rate_not_forwarded:
  \<open>fst (call_api (env_stream [''{"response": '', ''"hi"}'']) cfg_adaptive
          [\<lparr> role = ''user'', content = PStr ''hello'' \<rparr>] True (GenerationActor_init True ''t0''))
     = Inr ''{"response": "hi"}''
   \<and> stream_usage (map text_chunk [''{"response": '', ''"hi"}''] @ [usage_chunk 30 70]) = (30, 70)
   \<and> event_log (after_hi gen_msg) = [cache_hit_metric_event 30 70 (float_div 30 100) ''t0'']
   \<and> sent_summary (after_hi gen_msg) = [(''telegram'', BOT_RESPONSE, Some (PStr ''hi''), None)]
   \<and> \<not> forwards_cache_metric ''u1'' (sent (after_hi gen_msg))\<close>
proof -
  have u: \<open>stream_usage (map text_chunk [''{"response": '', ''"hi"}''] @ [usage_chunk 30 70]) = (30, 70)\<close>
    by (simp add: stream_usage_def List.map_filter_simps text_chunk_def usage_chunk_def)
  have f: "\<not> forwards_cache_metric ''u1'' (sent (after_hi gen_msg))"
    unfolding after_hi_gen_msg
    by (simp add: forwards_cache_metric_def send_message_def GenerationActor_init_def)
  have e: "event_log (after_hi gen_msg) = [cache_hit_metric_event 30 70 (float_div 30 100) ''t0'']"
    unfolding after_hi_gen_msg
    by (simp add: send_message_def GenerationActor_init_def)
  show ?thesis
    using u f e sent_after_hi by (simp add: call_api_stream interval_adaptive)
qed

text \<open>
  The claim as stated fails for a \<open>generate_response\<close> message without \<open>user_id\<close>: the
  key is read before the \<open>try\<close> block, so the \<open>KeyError\<close> leaves the handler and no
  message is sent. And an actor that is not attached to an actor system sends nothing,
  whatever the outcome.
\<close>

theorem C8_escaping_exception_counterexample:
  "message_type gen_msg_no_user = GENERATE_RESPONSE
   \<and> GenerationActor_handle_message env_down cfg_adaptive gen_msg_no_user
         (GenerationActor_init True ''t0'')
       = (Inl (KeyError ''user_id''), GenerationActor_init True ''t0'')
   \<and> sent (snd (GenerationActor_handle_message env_down cfg_adaptive gen_msg
         (GenerationActor_init False ''t0''))) = []"
proof -
  note g = generate_down [of cfg_adaptive "PStr ''hello''" "''u1''" "include_prompt_of gen_msg"
      "GenerationActor_init False ''t0''"]
  have d: "sent (snd (GenerationActor_handle_message env_down cfg_adaptive gen_msg
         (GenerationActor_init False ''t0''))) = []"
    unfolding handle_valid [OF gen_msg_fields(1-4) g]
    by (simp add: send_message_def GenerationActor_init_def)
  show ?thesis
    using d
    by (simp add: GenerationActor_handle_message_def gen_msg_no_user_def gen_msg_def
        ActorMessage_create_def empty_payload_def)
qed

theorem C8_handler_boundary_witness:
  \<open>message_type gen_msg = GENERATE_RESPONSE \<and> p_user_id (payload gen_msg) = Some ''u1''
   \<and> p_chat_id (payload gen_msg) = Some 7 \<and> p_text (payload gen_msg) = Some (PStr ''hello'')
   \<and> actor_system (GenerationActor_init True ''t0'')
   \<and> fst (GenerationActor_handle_message env_down cfg_adaptive gen_msg (GenerationActor_init True ''t0''))
       = Inr ()
   \<and> (\<exists>out. sent (snd (GenerationActor_handle_message env_down cfg_adaptive gen_msg
                        (GenerationActor_init True ''t0''))) = [(''telegram'', out)]
          \<and> message_type out = ERROR \<and> p_user_id (payload out) = Some ''u1''
          \<and> p_chat_id (payload out) = Some 7
          \<and> p_error (payload out) = Some ''circuit breaker is open''
          \<and> p_error_type (payload out) = Some ''generation_error'')
   \<and> fst (GenerationActor_handle_message (env_stream [''{"response": '', ''"hi"}'']) cfg_adaptive
            gen_msg (GenerationActor_init True ''t0'')) = Inr ()
   \<and> (\<exists>out. sent (snd (GenerationActor_handle_message (env_stream [''{"response": '', ''"hi"}''])
                        cfg_adaptive gen_msg (GenerationActor_init True ''t0''))) = [(''telegram'', out)]
          \<and> message_type out = BOT_RESPONSE \<and> p_user_id (payload out) = Some ''u1''
          \<and> p_chat_id (payload out) = Some 7
          \<and> p_text (payload out) = Some (PStr ''hi''))\<close>
proof -
  have s: "actor_system (GenerationActor_init True ''t0'')"
          "sent (GenerationActor_init True ''t0'') = []"
    by (simp_all add: GenerationActor_init_def)
  have g: "fst (generate_response env_down cfg_adaptive (PStr ''hello'') ''u1''
             (include_prompt_of gen_msg) (GenerationActor_init True ''t0''))
           = Inl (BackendError ''circuit breaker is open'')"
    by (simp add: generate_down)
  have h: \<open>fst (generate_response (env_stream [''{"response": '', ''"hi"}'']) cfg_adaptive
             (PStr ''hello'') ''u1'' (include_prompt_of gen_msg) (GenerationActor_init True ''t0''))
           = Inr (PStr ''hi'')\<close>
    by (simp add: generate_hi [OF interval_adaptive(1) interval_adaptive(3)])
  from C8_handler_boundary [OF gen_msg_fields(1-4) s(1), of env_down cfg_adaptive]
  have d: "fst (GenerationActor_handle_message env_down cfg_adaptive gen_msg (GenerationActor_init True ''t0''))
       = Inr ()
   \<and> (\<exists>out. sent (snd (GenerationActor_handle_message env_down cfg_adaptive gen_msg
                        (GenerationActor_init True ''t0''))) = [(''telegram'', out)]
          \<and> message_type out = ERROR \<and> p_user_id (payload out) = Some ''u1''
          \<and> p_chat_id (payload out) = Some 7
          \<and> p_error (payload out) = Some ''circuit breaker is open''
          \<and> p_error_type (payload out) = Some ''generation_error'')"
    unfolding g by (simp add: s)
  from C8_handler_boundary [OF gen_msg_fields(1-4) s(1),
      of \<open>env_stream [''{"response": '', ''"hi"}'']\<close> cfg_adaptive]
  have u: \<open>fst (GenerationActor_handle_message (env_stream [''{"response": '', ''"hi"}'']) cfg_adaptive
            gen_msg (GenerationActor_init True ''t0'')) = Inr ()
   \<and> (\<exists>out. sent (snd (GenerationActor_handle_message (env_stream [''{"response": '', ''"hi"}''])
                        cfg_adaptive gen_msg (GenerationActor_init True ''t0''))) = [(''telegram'', out)]
          \<and> message_type out = BOT_RESPONSE \<and> p_user_id (payload out) = Some ''u1''
          \<and> p_chat_id (payload out) = Some 7
          \<and> p_text (payload out) = Some (PStr ''hi''))\<close>
    unfolding h by (simp add: s)
  from d u gen_msg_fields s show ?thesis by simp
qed

theorem C10_include_prompt_default_witness:
  "p_include_prompt (payload gen_msg_no_flag) = None
   \<and> message_type gen_msg_no_flag = GENERATE_RESPONSE
   \<and> p_text (payload gen_msg_no_flag) = Some (PStr ''hello'')
   \<and> api_calls (after_hi gen_msg_no_flag)
       = [([\<lparr> role = ''system'', content = PStr ''structured'' \<rparr>,
            \<lparr> role = ''user'', content = PStr ''hello'' \<rparr>], True)]
   \<and> after_hi gen_msg_no_flag
       = after_hi (gen_msg_no_flag\<lparr> payload := (payload gen_msg_no_flag)\<lparr> p_include_prompt := Some True \<rparr> \<rparr>)"
proof -
  have f: "p_include_prompt (payload gen_msg_no_flag) = None"
    "message_type gen_msg_no_flag = GENERATE_RESPONSE"
    "p_user_id (payload gen_msg_no_flag) = Some ''u1''"
    "p_chat_id (payload gen_msg_no_flag) = Some 7"
    "p_text (payload gen_msg_no_flag) = Some (PStr ''hello'')"
    "include_prompt_of gen_msg_no_flag = True"
    by (simp_all add: gen_msg_no_flag_def gen_msg_def ActorMessage_create_def empty_payload_def
        include_prompt_of_def)
  note g = generate_hi [OF interval_adaptive(1) interval_adaptive(3),
      of "PStr ''hello''" "''u1''" "include_prompt_of gen_msg_no_flag" "GenerationActor_init True ''t0''"]
  have c: "api_calls (after_hi gen_msg_no_flag)
       = [([\<lparr> role = ''system'', content = PStr ''structured'' \<rparr>,
            \<lparr> role = ''user'', content = PStr ''hello'' \<rparr>], True)]"
    unfolding after_hi_def handle_valid [OF f(2-5) g]
    by (simp add: f send_message_def format_context_def GenerationActor_init_def cfg_adaptive_def)
  from C10_include_prompt_default [OF f(1), of \<open>env_stream [''{"response": '', ''"hi"}'']\<close>
      cfg_adaptive "GenerationActor_init True ''t0''" "PStr ''hello''"] f c
  show ?thesis
    by (simp add: after_hi_def)
qed

end
